theory Spec2Isabelle
  imports Complex_Main
begin
section \<open>The export pipeline of \<^verbatim>\<open>index.js\<close>\<close>

text \<open>
  \<^verbatim>\<open>index.js\<close> registers one job, \<^verbatim>\<open>generate-and-zip-users\<close>, that runs three stages in
  sequence: \<^verbatim>\<open>writeUsersToNDJSON\<close> writes generated user records to a line-delimited file,
  \<^verbatim>\<open>convertNDJSONToXLSX\<close> reads that file line by line into a streamed worksheet, and
  \<^verbatim>\<open>zipFiles\<close> archives both files.

  The functions of \<^verbatim>\<open>index.js\<close> are translated one by one. What they call in the runtime
  and in third-party libraries is modelled at its interface:
  \<^item> strings are lists of 8-bit characters; the encoding of files is not modelled;
  \<^item> every effect is appended to a trace, and the three files of the data directory are
    fields of the state;
  \<^item> \<^verbatim>\<open>JSON.parse\<close> is a parameter of the converter (\<open>None\<close> when it throws
    \<^verbatim>\<open>SyntaxError\<close>), so every theorem about the converter holds for every parser;
  \<^item> the values \<^verbatim>\<open>faker\<close> draws are a parameter of the generator;
  \<^item> the worksheet writer is modelled by the calls made on it: the columns assigned and the
    rows added and committed, each row holding the cells \<^verbatim>\<open>addRow\<close> fills for the
    columns of that moment.
\<close>

subsection \<open>Strings\<close>

type_synonym path = string

definition digit_char :: "nat \<Rightarrow> char" where
  "digit_char n = ''0123456789abcdef'' ! (n mod 16)"

fun decimal :: "nat \<Rightarrow> string" where
  "decimal n = (if n < 10 then [digit_char n] else decimal (n div 10) @ [digit_char (n mod 10)])"

definition pad_start :: "nat \<Rightarrow> string \<Rightarrow> string" where
  "pad_start n s = replicate (n - length s) CHR ''0'' @ s"

text \<open>
  \<^verbatim>\<open>String.prototype.trim\<close>: white space and line terminators of the 8-bit range are
  stripped at both ends. The source tests \<^verbatim>\<open>!line.trim()\<close>, true when the trimmed
  string is empty.
\<close>

definition is_whitespace :: "char \<Rightarrow> bool" where
  "is_whitespace c = (c = CHR 0x09 \<or> c = CHR 0x0A \<or> c = CHR 0x0B \<or> c = CHR 0x0C
     \<or> c = CHR 0x0D \<or> c = CHR 0x20 \<or> c = CHR 0xA0)"

definition trim :: "string \<Rightarrow> string" where
  "trim s = rev (dropWhile is_whitespace (rev (dropWhile is_whitespace s)))"

definition join :: "string \<Rightarrow> string list \<Rightarrow> string" where
  "join sep xs = (case xs of [] \<Rightarrow> [] | y # ys \<Rightarrow> y @ concat (map (\<lambda>z. sep @ z) ys))"

subsection \<open>Paths\<close>

text \<open>
  \<^verbatim>\<open>path.join\<close> of a directory and a name, and \<^verbatim>\<open>path.basename\<close>, for POSIX paths
  (normalisation of the directory is left out). The directory of the script,
  \<^verbatim>\<open>__dirname\<close>, is a parameter.
\<close>

definition path_join :: "path \<Rightarrow> string \<Rightarrow> path" where
  "path_join dir name = dir @ ''/'' @ name"

definition basename :: "path \<Rightarrow> string" where
  "basename p = rev (takeWhile (\<lambda>c. c \<noteq> CHR ''/'') (rev p))"

definition dataDir :: "path \<Rightarrow> path" where
  "dataDir dirname = path_join dirname ''data''"

definition ndjsonPath :: "path \<Rightarrow> path" where
  "ndjsonPath dirname = path_join (dataDir dirname) ''users_stream.ndjson''"

definition xlsxPath :: "path \<Rightarrow> path" where
  "xlsxPath dirname = path_join (dataDir dirname) ''users_stream.xlsx''"

definition zipPath :: "path \<Rightarrow> path" where
  "zipPath dirname = path_join (dataDir dirname) ''users_export.zip''"

subsection \<open>Values and their JSON text\<close>

text \<open>
  A \<^verbatim>\<open>Date\<close> by its UTC calendar fields; \<^verbatim>\<open>toISOString\<close> renders
  \<^verbatim>\<open>YYYY-MM-DDTHH:mm:ss.sssZ\<close>.
\<close>

record date =
  year :: nat
  month :: nat
  day :: nat
  hours :: nat
  minutes :: nat
  seconds :: nat
  milliseconds :: nat

definition toISOString :: "date \<Rightarrow> string" where
  "toISOString d =
     pad_start 4 (decimal (year d)) @ ''-'' @ pad_start 2 (decimal (month d)) @ ''-''
     @ pad_start 2 (decimal (day d)) @ ''T'' @ pad_start 2 (decimal (hours d)) @ '':''
     @ pad_start 2 (decimal (minutes d)) @ '':'' @ pad_start 2 (decimal (seconds d)) @ ''.''
     @ pad_start 3 (decimal (milliseconds d)) @ ''Z''"

text \<open>The values the generator stores in a record: strings and dates, under ordered keys.\<close>

datatype jsvalue = Str string | DateValue date

type_synonym jsobject = "(string \<times> jsvalue) list"

text \<open>
  What \<^verbatim>\<open>JSON.parse\<close> returns. An object lists its own keys in the order
  \<^verbatim>\<open>Object.keys\<close> gives them.
\<close>

datatype json =
    JNull
  | JBool bool
  | JNumber rat
  | JString string
  | JArray "json list"
  | JObject "(string \<times> json) list"

text \<open>
  \<^verbatim>\<open>JSON.stringify\<close> on a record of the generator. A string is quoted as
  \<^verbatim>\<open>QuoteJSONString\<close> does: the quote, the backslash and the control characters are
  escaped. A date is serialised through \<^verbatim>\<open>toJSON\<close>, its ISO string.
\<close>

definition escape_char :: "char \<Rightarrow> string" where
  "escape_char c =
     (if c = CHR 0x08 then [CHR 0x5C, CHR ''b'']
      else if c = CHR 0x09 then [CHR 0x5C, CHR ''t'']
      else if c = CHR 0x0A then [CHR 0x5C, CHR ''n'']
      else if c = CHR 0x0C then [CHR 0x5C, CHR ''f'']
      else if c = CHR 0x0D then [CHR 0x5C, CHR ''r'']
      else if c = CHR 0x22 then [CHR 0x5C, CHR 0x22]
      else if c = CHR 0x5C then [CHR 0x5C, CHR 0x5C]
      else if of_char c < (32 :: nat)
        then [CHR 0x5C, CHR ''u'', CHR ''0'', CHR ''0'',
              digit_char (of_char c div 16), digit_char (of_char c mod 16)]
      else [c])"

definition quote :: "string \<Rightarrow> string" where
  "quote s = [CHR 0x22] @ concat (map escape_char s) @ [CHR 0x22]"

fun primitive :: "jsvalue \<Rightarrow> string" where
  "primitive (Str s) = s"
| "primitive (DateValue d) = toISOString d"

definition JSON_stringify :: "jsobject \<Rightarrow> string" where
  "JSON_stringify obj =
     ''{'' @ join '','' (map (\<lambda>(k, v). quote k @ '':'' @ quote (primitive v)) obj) @ ''}''"


subsection \<open>The record generator\<close>

text \<open>One call of \<^verbatim>\<open>generateUser\<close> draws seven values from \<^verbatim>\<open>faker\<close>.\<close>

record faker =
  string_uuid :: string
  internet_username :: string
  internet_email :: string
  image_avatar :: string
  internet_password :: string
  date_birthdate :: date
  date_past :: date

definition generateUser :: "faker \<Rightarrow> jsobject" where
  "generateUser f =
     [(''userId'', Str (string_uuid f)),
      (''username'', Str (internet_username f)),
      (''email'', Str (internet_email f)),
      (''avatar'', Str (image_avatar f)),
      (''password'', Str (internet_password f)),
      (''birthdate'', DateValue (date_birthdate f)),
      (''registeredAt'', DateValue (date_past f))]"


subsection \<open>State: the files of the data directory and the trace of effects\<close>

text \<open>
  The data directory holds three files at fixed paths. A sink is \<open>Writing\<close> while the
  program writes to it, \<open>EndRequested\<close> once the program has asked it to end
  (\<^verbatim>\<open>stream.end()\<close>, \<^verbatim>\<open>archive.finalize()\<close>) without having waited for its
  completion event, and \<open>Closed\<close> once the program has waited for that event (the
  \<^verbatim>\<open>'close'\<close> event of a stream, the promise of \<^verbatim>\<open>workbook.commit()\<close>).
\<close>

datatype artifact = LineStream | Table | Archive

fun artifact_path :: "path \<Rightarrow> artifact \<Rightarrow> path" where
  "artifact_path dirname LineStream = ndjsonPath dirname"
| "artifact_path dirname Table = xlsxPath dirname"
| "artifact_path dirname Archive = zipPath dirname"

datatype sink_status = Writing | EndRequested | Closed

record column =
  header :: string
  key :: string
  width :: nat

text \<open>A row holds the cells that were given a value, by column number from 1.\<close>

type_synonym row = "(nat \<times> json) list"

datatype file_data =
    Bytes string
  | Sheet "column list option" "row list"
  | Zip "(string \<times> file_data) list"

record line_stream_file =
  contents :: string
  ls_status :: sink_status
  ls_readable :: bool

record table_file =
  columns :: "column list option"
  rows :: "row list"
  tb_status :: sink_status
  tb_readable :: bool

record archive_file =
  entries :: "(string \<times> file_data) list"
  ar_status :: sink_status

datatype message =
    JobStarted
  | WroteBatch nat nat
  | FinishedWritingNDJSON
  | WrittenExcelRows nat
  | FinishedConvertingToExcel
  | ZipCreated
  | JobCompleted

datatype label =
    JobStart
  | AfterWritingBatch nat nat
  | CompletedNDJSONWriting
  | ExcelRows nat
  | CompletedExcelWriting
  | CompletedZipping
  | JobEnd

text \<open>
  \<open>WroteBatch n b\<close> and \<open>AfterWritingBatch n b\<close> stand for the texts that print the
  quotient \<^verbatim>\<open>(i + 1) / batchSize\<close>, with \<open>n = i + 1\<close> and \<open>b = batchSize\<close>.
\<close>

datatype error = SyntaxError | TypeError | ENOENT | EACCES

datatype event =
    ConsoleLog message
  | SystemStats label
  | Delay nat
  | CreateWriteStream artifact
  | StreamWrite artifact string
  | StreamEnd artifact
  | WorkbookWriter artifact
  | AddWorksheet string
  | CreateReadStream artifact
  | SetColumns "column list"
  | AddRow row
  | WorkbookCommit
  | Archiver nat
  | ArchivePipe artifact
  | ArchiveFile artifact string
  | ArchiveFinalize
  | WarningEvent error
  | ErrorEvent error
  | CloseEvent artifact

record world =
  line_stream :: "line_stream_file option"
  workbook :: "table_file option"
  archive :: "archive_file option"
  trace :: "event list"

text \<open>The result of an \<^verbatim>\<open>async\<close> function: its promise resolves or rejects.\<close>

datatype outcome = Resolved world | Rejected error world

definition emit :: "event \<Rightarrow> world \<Rightarrow> world" where
  "emit e w = w\<lparr>trace := trace w @ [e]\<rparr>"

definition emitted :: "world \<Rightarrow> world \<Rightarrow> event list" where
  "emitted w w' = drop (length (trace w)) (trace w')"

definition console_log :: "message \<Rightarrow> world \<Rightarrow> world" where
  "console_log m w = emit (ConsoleLog m) w"

text \<open>
  \<^verbatim>\<open>logSystemStats(label)\<close> reads the memory use and the load average of the process and
  prints one line; the readings are not part of the state.
\<close>

definition logSystemStats :: "label \<Rightarrow> world \<Rightarrow> world" where
  "logSystemStats l w = emit (SystemStats l) w"

text \<open>\<^verbatim>\<open>await new Promise(resolve => setTimeout(resolve, ms))\<close>\<close>

definition delay :: "nat \<Rightarrow> world \<Rightarrow> world" where
  "delay ms w = emit (Delay ms) w"

subsection \<open>Step 1: \<^verbatim>\<open>writeUsersToNDJSON\<close>\<close>

text \<open>
  \<^verbatim>\<open>fs.createWriteStream(ndjsonPath)\<close> opens the file for writing and truncates it.
  \<^verbatim>\<open>stream.write(chunk)\<close> appends the chunk to what the sink has been given.
  \<^verbatim>\<open>stream.end()\<close> asks the sink to finish and returns at once.
\<close>

definition createWriteStream_ndjson :: "world \<Rightarrow> world" where
  "createWriteStream_ndjson w =
     emit (CreateWriteStream LineStream)
       (w\<lparr>line_stream := Some \<lparr>contents = [], ls_status = Writing, ls_readable = True\<rparr>\<rparr>)"

definition stream_write :: "string \<Rightarrow> world \<Rightarrow> world" where
  "stream_write chunk w =
     emit (StreamWrite LineStream chunk)
       (w\<lparr>line_stream := map_option (\<lambda>f. f\<lparr>contents := contents f @ chunk\<rparr>) (line_stream w)\<rparr>)"

definition stream_end :: "world \<Rightarrow> world" where
  "stream_end w =
     emit (StreamEnd LineStream)
       (w\<lparr>line_stream := map_option (\<lambda>f. f\<lparr>ls_status := EndRequested\<rparr>) (line_stream w)\<rparr>)"

text \<open>
  The body of the loop for the index \<open>i\<close>. The two constants of the function,
  \<^verbatim>\<open>totalUsers\<close> and \<^verbatim>\<open>batchSize\<close>, are arguments of the loop; the test of the
  checkpoint compares with the literal \<^verbatim>\<open>100000\<close>, as the source does. \<open>draws i\<close> is
  what \<^verbatim>\<open>faker\<close> returns in the call of \<^verbatim>\<open>generateUser\<close> for the index \<open>i\<close>.
\<close>

definition write_iteration :: "nat \<Rightarrow> (nat \<Rightarrow> faker) \<Rightarrow> nat \<Rightarrow> world \<Rightarrow> world" where
  "write_iteration batchSize draws i w =
     (let user = generateUser (draws i);
          w1 = stream_write (JSON_stringify user @ [CHR 0x0A]) w
      in if (i + 1) mod 100000 = 0
         then delay 500
                (logSystemStats (AfterWritingBatch (i + 1) batchSize)
                  (console_log (WroteBatch (i + 1) batchSize) w1))
         else w1)"

function write_loop :: "nat \<Rightarrow> nat \<Rightarrow> (nat \<Rightarrow> faker) \<Rightarrow> nat \<Rightarrow> world \<Rightarrow> world" where
  "write_loop totalUsers batchSize draws i w =
     (if i < totalUsers
      then write_loop totalUsers batchSize draws (i + 1) (write_iteration batchSize draws i w)
      else w)"
  by pat_completeness auto
termination
  by (relation "measure (\<lambda>(totalUsers, batchSize, draws, i, w). totalUsers - i)") auto

definition writeUsersToNDJSON_with ::
  "nat \<Rightarrow> nat \<Rightarrow> (nat \<Rightarrow> faker) \<Rightarrow> world \<Rightarrow> world" where
  "writeUsersToNDJSON_with totalUsers batchSize draws w =
     (let w1 = createWriteStream_ndjson w;
          w2 = write_loop totalUsers batchSize draws 0 w1;
          w3 = stream_end w2;
          w4 = console_log FinishedWritingNDJSON w3
      in logSystemStats CompletedNDJSONWriting w4)"

definition totalUsers :: nat where
  "totalUsers = 1000000"

definition batchSize :: nat where
  "batchSize = 100000"

definition writeUsersToNDJSON :: "(nat \<Rightarrow> faker) \<Rightarrow> world \<Rightarrow> world" where
  "writeUsersToNDJSON draws w = writeUsersToNDJSON_with totalUsers batchSize draws w"

subsection \<open>Step 2: \<^verbatim>\<open>convertNDJSONToXLSX\<close>\<close>

text \<open>
  The lines \<^verbatim>\<open>readline\<close> delivers for an input, with \<^verbatim>\<open>crlfDelay: Infinity\<close>: a line
  ends at a line feed, at a carriage return followed by a line feed, or at a lone carriage
  return; what follows the last terminator is a line when it is not empty.
\<close>

fun readline_from :: "string \<Rightarrow> string \<Rightarrow> string list" where
  "readline_from cur [] = (if cur = [] then [] else [cur])"
| "readline_from cur (c # cs) =
     (if c = CHR 0x0A then cur # readline_from [] cs
      else if c = CHR 0x0D
        then (case cs of
                [] \<Rightarrow> cur # readline_from [] cs
              | d # ds \<Rightarrow> if d = CHR 0x0A then cur # readline_from [] ds
                         else cur # readline_from [] cs)
      else readline_from (cur @ [c]) cs)"

definition readline :: "string \<Rightarrow> string list" where
  "readline input = readline_from [] input"

text \<open>
  \<^verbatim>\<open>Object.keys\<close>: a \<^verbatim>\<open>TypeError\<close> on \<^verbatim>\<open>null\<close>, no key for a number or a boolean, the
  indices for a string or an array, the own keys for an object.
\<close>

fun Object_keys :: "json \<Rightarrow> error + string list" where
  "Object_keys JNull = Inl TypeError"
| "Object_keys (JBool b) = Inr []"
| "Object_keys (JNumber n) = Inr []"
| "Object_keys (JString s) = Inr (map decimal [0..<length s])"
| "Object_keys (JArray xs) = Inr (map decimal [0..<length xs])"
| "Object_keys (JObject kvs) = Inr (map fst kvs)"

text \<open>
  The cells \<^verbatim>\<open>worksheet.addRow(value)\<close> fills, as the setter of a row's values does:
  none for a falsy value; the items by position for an array; otherwise, for each column
  in turn, the cell of that column takes \<^verbatim>\<open>value[key]\<close> unless it is undefined. Only
  own properties are looked up (those of a string are its indices and its length).
\<close>

definition string_property :: "string \<Rightarrow> string \<Rightarrow> json option" where
  "string_property s k =
     (if k = ''length'' then Some (JNumber (of_nat (length s)))
      else map_option (\<lambda>i. JString [s ! i]) (find (\<lambda>i. decimal i = k) [0..<length s]))"

definition keyed_cells :: "column list \<Rightarrow> (string \<Rightarrow> json option) \<Rightarrow> row" where
  "keyed_cells cols get =
     concat (map (\<lambda>(i, c). case get (key c) of None \<Rightarrow> [] | Some v \<Rightarrow> [(i + 1, v)])
               (enumerate 0 cols))"

fun row_values :: "column list \<Rightarrow> json \<Rightarrow> row" where
  "row_values cols JNull = []"
| "row_values cols (JBool b) = []"
| "row_values cols (JNumber n) = []"
| "row_values cols (JString s) = (if s = [] then [] else keyed_cells cols (string_property s))"
| "row_values cols (JArray xs) = map (\<lambda>(i, x). (i + 1, x)) (enumerate 0 xs)"
| "row_values cols (JObject kvs) = keyed_cells cols (map_of kvs)"


text \<open>
  \<^verbatim>\<open>new ExcelJS.stream.xlsx.WorkbookWriter({ filename: xlsxPath })\<close> opens the file;
  \<^verbatim>\<open>worksheet.columns = ...\<close> assigns the columns; \<^verbatim>\<open>worksheet.addRow(user).commit()\<close>
  appends one row; \<^verbatim>\<open>await workbook.commit()\<close> finalises the file and waits for it.
\<close>

definition new_WorkbookWriter :: "world \<Rightarrow> world" where
  "new_WorkbookWriter w =
     emit (WorkbookWriter Table)
       (w\<lparr>workbook := Some \<lparr>columns = None, rows = [], tb_status = Writing,
                              tb_readable = True\<rparr>\<rparr>)"

definition addWorksheet :: "string \<Rightarrow> world \<Rightarrow> world" where
  "addWorksheet name w = emit (AddWorksheet name) w"

definition set_columns :: "column list \<Rightarrow> world \<Rightarrow> world" where
  "set_columns cols w =
     emit (SetColumns cols)
       (w\<lparr>workbook := map_option (\<lambda>t. t\<lparr>columns := Some cols\<rparr>) (workbook w)\<rparr>)"

definition current_columns :: "world \<Rightarrow> column list" where
  "current_columns w =
     (case workbook w of
        None \<Rightarrow> []
      | Some t \<Rightarrow> (case columns t of None \<Rightarrow> [] | Some cols \<Rightarrow> cols))"

definition addRow_commit :: "json \<Rightarrow> world \<Rightarrow> world" where
  "addRow_commit user w =
     (let r = row_values (current_columns w) user
      in emit (AddRow r)
           (w\<lparr>workbook := map_option (\<lambda>t. t\<lparr>rows := rows t @ [r]\<rparr>) (workbook w)\<rparr>))"

definition workbook_commit :: "world \<Rightarrow> world" where
  "workbook_commit w =
     emit WorkbookCommit
       (w\<lparr>workbook := map_option (\<lambda>t. t\<lparr>tb_status := Closed\<rparr>) (workbook w)\<rparr>)"

text \<open>
  The rows of the table: the header row, present once the columns are assigned, then the
  rows added.
\<close>

definition header_rows :: "table_file \<Rightarrow> string list list" where
  "header_rows t = (case columns t of None \<Rightarrow> [] | Some cols \<Rightarrow> [map header cols])"

definition data_rows :: "table_file \<Rightarrow> row list" where
  "data_rows t = rows t"

text \<open>The assignment under \<^verbatim>\<open>if (isFirstRow)\<close>.\<close>

definition assign_columns :: "json \<Rightarrow> world \<Rightarrow> error + world" where
  "assign_columns user w =
     (case Object_keys user of
        Inl e \<Rightarrow> Inl e
      | Inr ks \<Rightarrow> Inr (set_columns (map (\<lambda>k. \<lparr>header = k, key = k, width = 20\<rparr>) ks) w))"

text \<open>
  The loop \<^verbatim>\<open>for await (const line of rl)\<close> over the lines still to come, with the two
  variables \<^verbatim>\<open>isFirstRow\<close> and \<^verbatim>\<open>rowCount\<close>. An exception leaves the loop and rejects
  the promise of the function.
\<close>

fun convert_lines ::
  "(string \<Rightarrow> json option) \<Rightarrow> string list \<Rightarrow> bool \<Rightarrow> nat \<Rightarrow> world \<Rightarrow> outcome" where
  "convert_lines parse [] isFirstRow rowCount w = Resolved w"
| "convert_lines parse (line # rest) isFirstRow rowCount w =
     (if trim line = [] then convert_lines parse rest isFirstRow rowCount w
      else case parse line of
        None \<Rightarrow> Rejected SyntaxError w
      | Some user \<Rightarrow>
          (case (if isFirstRow then assign_columns user w else Inr w) of
             Inl e \<Rightarrow> Rejected e w
           | Inr w1 \<Rightarrow>
               (let w2 = addRow_commit user w1;
                    rowCount' = rowCount + 1;
                    w3 = (if rowCount' mod 100000 = 0
                          then logSystemStats (ExcelRows rowCount')
                                 (console_log (WrittenExcelRows rowCount') w2)
                          else w2)
                in convert_lines parse rest False rowCount' w3)))"

text \<open>
  The input stream fails when the file is missing or cannot be read; the model rejects
  the promise there.
\<close>

definition convertNDJSONToXLSX :: "(string \<Rightarrow> json option) \<Rightarrow> world \<Rightarrow> outcome" where
  "convertNDJSONToXLSX parse w =
     (let w1 = new_WorkbookWriter w;
          w2 = addWorksheet ''Users'' w1;
          w3 = emit (CreateReadStream LineStream) w2
      in case line_stream w3 of
           None \<Rightarrow> Rejected ENOENT w3
         | Some f \<Rightarrow>
             if \<not> ls_readable f then Rejected EACCES w3
             else (case convert_lines parse (readline (contents f)) True 0 w3 of
                     Rejected e w' \<Rightarrow> Rejected e w'
                   | Resolved w4 \<Rightarrow>
                       (let w5 = workbook_commit w4;
                            w6 = console_log FinishedConvertingToExcel w5
                        in Resolved (logSystemStats CompletedExcelWriting w6))))"

subsection \<open>Step 3: \<^verbatim>\<open>zipFiles\<close>\<close>

text \<open>
  What \<^verbatim>\<open>archiver\<close> reads for a queued file. A file that cannot be found makes the
  archiver emit \<^verbatim>\<open>'warning'\<close> and go on with the next entry; a file that is found and
  cannot be read makes it emit \<^verbatim>\<open>'error'\<close>.
\<close>

fun read_source :: "artifact \<Rightarrow> world \<Rightarrow> error + file_data" where
  "read_source LineStream w =
     (case line_stream w of
        None \<Rightarrow> Inl ENOENT
      | Some f \<Rightarrow> if ls_readable f then Inr (Bytes (contents f)) else Inl EACCES)"
| "read_source Table w =
     (case workbook w of
        None \<Rightarrow> Inl ENOENT
      | Some t \<Rightarrow> if tb_readable t then Inr (Sheet (columns t) (rows t)) else Inl EACCES)"
| "read_source Archive w =
     (case archive w of
        None \<Rightarrow> Inl ENOENT
      | Some a \<Rightarrow> Inr (Zip (entries a)))"

definition append_entry :: "string \<Rightarrow> file_data \<Rightarrow> world \<Rightarrow> world" where
  "append_entry name d w =
     w\<lparr>archive := map_option (\<lambda>a. a\<lparr>entries := entries a @ [(name, d)]\<rparr>) (archive w)\<rparr>"

fun archiver_process :: "(artifact \<times> string) list \<Rightarrow> world \<Rightarrow> outcome" where
  "archiver_process [] w = Resolved w"
| "archiver_process ((a, name) # queue) w =
     (case read_source a w of
        Inl e \<Rightarrow>
          if e = ENOENT then archiver_process queue (emit (WarningEvent e) w)
          else Rejected e (emit (ErrorEvent e) w)
      | Inr d \<Rightarrow> archiver_process queue (append_entry name d w))"

definition createWriteStream_zip :: "world \<Rightarrow> world" where
  "createWriteStream_zip w =
     emit (CreateWriteStream Archive)
       (w\<lparr>archive := Some \<lparr>entries = [], ar_status = Writing\<rparr>\<rparr>)"

definition archive_finalize :: "world \<Rightarrow> world" where
  "archive_finalize w =
     emit ArchiveFinalize
       (w\<lparr>archive := map_option (\<lambda>a. a\<lparr>ar_status := EndRequested\<rparr>) (archive w)\<rparr>)"

definition output_close :: "world \<Rightarrow> world" where
  "output_close w =
     emit (CloseEvent Archive)
       (w\<lparr>archive := map_option (\<lambda>a. a\<lparr>ar_status := Closed\<rparr>) (archive w)\<rparr>)"

text \<open>
  The promise of \<^verbatim>\<open>zipFiles\<close> has two ways out: the listener of \<^verbatim>\<open>'close'\<close> on the
  output logs and resolves, the listener of \<^verbatim>\<open>'error'\<close> on the archive rejects. No
  listener is registered for \<^verbatim>\<open>'warning'\<close>.
\<close>

definition zipFiles :: "world \<Rightarrow> outcome" where
  "zipFiles w =
     (let w1 = createWriteStream_zip w;
          w2 = emit (Archiver 9) w1;
          w3 = emit (ArchivePipe Archive) w2;
          w4 = emit (ArchiveFile LineStream ''users_stream.ndjson'') w3;
          w5 = emit (ArchiveFile Table ''users_stream.xlsx'') w4;
          w6 = archive_finalize w5
      in case archiver_process
                [(LineStream, ''users_stream.ndjson''), (Table, ''users_stream.xlsx'')] w6 of
           Rejected e w' \<Rightarrow> Rejected e w'
         | Resolved w7 \<Rightarrow>
             (let w8 = output_close w7;
                  w9 = console_log ZipCreated w8
              in Resolved (logSystemStats CompletedZipping w9)))"

subsection \<open>Step 4: the job \<^verbatim>\<open>generate-and-zip-users\<close>\<close>

definition job_with ::
  "nat \<Rightarrow> nat \<Rightarrow> (nat \<Rightarrow> faker) \<Rightarrow> (string \<Rightarrow> json option) \<Rightarrow> world \<Rightarrow> outcome" where
  "job_with totalCount batch draws parse w =
     (let w1 = console_log JobStarted w;
          w2 = logSystemStats JobStart w1;
          w3 = writeUsersToNDJSON_with totalCount batch draws w2
      in case convertNDJSONToXLSX parse w3 of
           Rejected e w' \<Rightarrow> Rejected e w'
         | Resolved w4 \<Rightarrow>
             (case zipFiles w4 of
                Rejected e w' \<Rightarrow> Rejected e w'
              | Resolved w5 \<Rightarrow>
                  (let w6 = console_log JobCompleted w5
                   in Resolved (logSystemStats JobEnd w6))))"

definition job :: "(nat \<Rightarrow> faker) \<Rightarrow> (string \<Rightarrow> json option) \<Rightarrow> world \<Rightarrow> outcome" where
  "job draws parse w = job_with totalUsers batchSize draws parse w"

subsection \<open>Reading the state and the trace\<close>

text \<open>The world an outcome leaves behind, and whether the promise resolved.\<close>

fun world_of :: "outcome \<Rightarrow> world" where
  "world_of (Resolved w) = w"
| "world_of (Rejected e w) = w"

fun resolved :: "outcome \<Rightarrow> bool" where
  "resolved (Resolved w) = True"
| "resolved (Rejected e w) = False"

text \<open>The line the writer produces for the index \<open>i\<close>, and the events of one iteration.\<close>

definition user_line :: "(nat \<Rightarrow> faker) \<Rightarrow> nat \<Rightarrow> string" where
  "user_line draws i = JSON_stringify (generateUser (draws i))"

definition checkpoint_events :: "nat \<Rightarrow> nat \<Rightarrow> event list" where
  "checkpoint_events n b =
     [ConsoleLog (WroteBatch n b), SystemStats (AfterWritingBatch n b), Delay 500]"

definition iteration_events :: "nat \<Rightarrow> (nat \<Rightarrow> faker) \<Rightarrow> nat \<Rightarrow> event list" where
  "iteration_events b draws i =
     StreamWrite LineStream (user_line draws i @ [CHR 0x0A])
     # (if (i + 1) mod 100000 = 0 then checkpoint_events (i + 1) b else [])"

fun is_write :: "event \<Rightarrow> bool" where
  "is_write (StreamWrite a chunk) = True"
| "is_write e = False"




text \<open>
  \<open>written_at P n es\<close>: for each event of \<open>es\<close> that satisfies \<open>P\<close>, in order, the
  number of records written before it, \<open>n\<close> of them before \<open>es\<close> starts.
\<close>

fun written_at :: "(event \<Rightarrow> bool) \<Rightarrow> nat \<Rightarrow> event list \<Rightarrow> nat list" where
  "written_at P n [] = []"
| "written_at P n (e # es) =
     (if is_write e then written_at P (Suc n) es
      else if P e then n # written_at P n es
      else written_at P n es)"



text \<open>The lines of a source that the converter does not skip.\<close>

definition non_blank :: "string list \<Rightarrow> string list" where
  "non_blank ls = filter (\<lambda>l. trim l \<noteq> []) ls"

text \<open>The column the converter makes of a key.\<close>

definition make_column :: "string \<Rightarrow> column" where
  "make_column k = \<lparr>header = k, key = k, width = 20\<rparr>"

text \<open>The progress report at the end of an iteration of the converter's loop.\<close>

definition progress :: "nat \<Rightarrow> world \<Rightarrow> world" where
  "progress rowCount w =
     (if rowCount mod 100000 = 0
      then logSystemStats (ExcelRows rowCount) (console_log (WrittenExcelRows rowCount) w)
      else w)"

text \<open>
  What the loop of the converter leaves alone: the line-stream file, the archive, the
  status of the table file; and it never commits the workbook.
\<close>

definition loop_frame :: "world \<Rightarrow> world \<Rightarrow> bool" where
  "loop_frame w w' \<longleftrightarrow>
     line_stream w' = line_stream w \<and> archive w' = archive w
     \<and> map_option tb_status (workbook w') = map_option tb_status (workbook w)
     \<and> (\<exists>es. trace w' = trace w @ es \<and> WorkbookCommit \<notin> set es)"

text \<open>The converter before its loop, and after it.\<close>

definition converter_start :: "world \<Rightarrow> world" where
  "converter_start w =
     emit (CreateReadStream LineStream) (addWorksheet ''Users'' (new_WorkbookWriter w))"

definition converter_finish :: "world \<Rightarrow> world" where
  "converter_finish w =
     logSystemStats CompletedExcelWriting
       (console_log FinishedConvertingToExcel (workbook_commit w))"




subsection \<open>Sample inputs\<close>




text \<open>The data directory before the first run, and one that holds a given line-stream file.\<close>

definition empty_world :: world where
  "empty_world = \<lparr>line_stream = None, workbook = None, archive = None, trace = []\<rparr>"

definition source_world :: "string \<Rightarrow> world" where
  "source_world s =
     \<lparr>line_stream = Some \<lparr>contents = s, ls_status = Closed, ls_readable = True\<rparr>,
      workbook = None, archive = None, trace = []\<rparr>"

text \<open>
  \<^verbatim>\<open>JSON.parse\<close> on the lines the examples use; every other line counts as malformed.
  \<open>user_parse\<close> knows the line of the sample record only.
\<close>

definition sample_parse :: "string \<Rightarrow> json option" where
  \<open>sample_parse l =
     (if l = ''{"a":"1","b":"2"}''
        then Some (JObject [(''a'', JString ''1''), (''b'', JString ''2'')])
      else if l = ''{"b":"3","c":"4"}''
        then Some (JObject [(''b'', JString ''3''), (''c'', JString ''4'')])
      else if l = ''123'' then Some (JNumber 123)
      else None)\<close>


text \<open>
  Three sources of three lines each: one with a blank second line, one with a malformed
  second line, one whose second line is a number.
\<close>

definition sample_source :: string where
  \<open>sample_source =
     ''{"a":"1","b":"2"}'' @ [CHR 0x0A] @ ''  '' @ [CHR 0x0A] @ ''{"b":"3","c":"4"}'' @ [CHR 0x0A]\<close>

definition malformed_source :: string where
  \<open>malformed_source =
     ''{"a":"1","b":"2"}'' @ [CHR 0x0A] @ ''{oops'' @ [CHR 0x0A] @ ''{"b":"3","c":"4"}'' @ [CHR 0x0A]\<close>

definition number_source :: string where
  \<open>number_source =
     ''{"a":"1","b":"2"}'' @ [CHR 0x0A] @ ''123'' @ [CHR 0x0A] @ ''{"b":"3","c":"4"}'' @ [CHR 0x0A]\<close>

text \<open>
  Data directories for the archiver: one with both files, one where the line-stream file
  is missing.
\<close>

definition sample_table :: table_file where
  "sample_table =
     \<lparr>columns = Some [make_column ''a''], rows = [[(1, JString ''1'')]], tb_status = Closed,
      tb_readable = True\<rparr>"

definition both_files_world :: world where
  "both_files_world =
     \<lparr>line_stream = Some \<lparr>contents = ''A'', ls_status = Closed, ls_readable = True\<rparr>,
      workbook = Some sample_table, archive = None, trace = []\<rparr>"

definition table_only_world :: world where
  "table_only_world =
     \<lparr>line_stream = None, workbook = Some sample_table, archive = None, trace = []\<rparr>"

section \<open>Lemmas\<close>

subsection \<open>Effects of the primitive operations\<close>

lemma emit_simps [simp]:
  "line_stream (emit e w) = line_stream w"
  "workbook (emit e w) = workbook w"
  "archive (emit e w) = archive w"
  "trace (emit e w) = trace w @ [e]"
  by (simp_all add: emit_def)

lemma console_log_simps [simp]:
  "line_stream (console_log m w) = line_stream w"
  "workbook (console_log m w) = workbook w"
  "archive (console_log m w) = archive w"
  "trace (console_log m w) = trace w @ [ConsoleLog m]"
  by (simp_all add: console_log_def)

lemma logSystemStats_simps [simp]:
  "line_stream (logSystemStats l w) = line_stream w"
  "workbook (logSystemStats l w) = workbook w"
  "archive (logSystemStats l w) = archive w"
  "trace (logSystemStats l w) = trace w @ [SystemStats l]"
  by (simp_all add: logSystemStats_def)

lemma delay_simps [simp]:
  "line_stream (delay ms w) = line_stream w"
  "workbook (delay ms w) = workbook w"
  "archive (delay ms w) = archive w"
  "trace (delay ms w) = trace w @ [Delay ms]"
  by (simp_all add: delay_def)

lemma createWriteStream_ndjson_simps [simp]:
  "line_stream (createWriteStream_ndjson w) =
     Some \<lparr>contents = [], ls_status = Writing, ls_readable = True\<rparr>"
  "workbook (createWriteStream_ndjson w) = workbook w"
  "archive (createWriteStream_ndjson w) = archive w"
  "trace (createWriteStream_ndjson w) = trace w @ [CreateWriteStream LineStream]"
  by (simp_all add: createWriteStream_ndjson_def)

lemma stream_write_simps [simp]:
  "line_stream (stream_write chunk w) =
     map_option (\<lambda>f. f\<lparr>contents := contents f @ chunk\<rparr>) (line_stream w)"
  "workbook (stream_write chunk w) = workbook w"
  "archive (stream_write chunk w) = archive w"
  "trace (stream_write chunk w) = trace w @ [StreamWrite LineStream chunk]"
  by (simp_all add: stream_write_def)

lemma stream_end_simps [simp]:
  "line_stream (stream_end w) =
     map_option (\<lambda>f. f\<lparr>ls_status := EndRequested\<rparr>) (line_stream w)"
  "workbook (stream_end w) = workbook w"
  "archive (stream_end w) = archive w"
  "trace (stream_end w) = trace w @ [StreamEnd LineStream]"
  by (simp_all add: stream_end_def)

lemma emitted_append: "trace w' = trace w @ es \<Longrightarrow> emitted w w' = es"
  by (simp add: emitted_def)

subsection \<open>The loop of the writer\<close>

lemma write_iteration_simps [simp]:
  "line_stream (write_iteration b draws i w) =
     map_option (\<lambda>f. f\<lparr>contents := contents f @ user_line draws i @ [CHR 0x0A]\<rparr>) (line_stream w)"
  "workbook (write_iteration b draws i w) = workbook w"
  "archive (write_iteration b draws i w) = archive w"
  "trace (write_iteration b draws i w) = trace w @ iteration_events b draws i"
  by (simp_all add: write_iteration_def Let_def user_line_def iteration_events_def
      checkpoint_events_def)

declare write_loop.simps [simp del]

lemma write_loop_frame [simp]:
  "workbook (write_loop t b draws i w) = workbook w"
  "archive (write_loop t b draws i w) = archive w"
  by (induction t b draws i w rule: write_loop.induct; subst write_loop.simps; simp)+

lemma write_loop_trace:
  "trace (write_loop t b draws i w) = trace w @ concat (map (iteration_events b draws) [i..<t])"
proof (induction t b draws i w rule: write_loop.induct)
  case (1 t b draws i w)
  show ?case
  proof (cases "i < t")
    case True
    with 1 show ?thesis
      by (subst write_loop.simps) (simp add: upt_conv_Cons)
  next
    case False
    then show ?thesis by (subst write_loop.simps) simp
  qed
qed

lemma write_loop_line_stream:
  "line_stream (write_loop t b draws i w) =
     map_option (\<lambda>f. f\<lparr>contents := contents f @ concat (map (\<lambda>j. user_line draws j @ [CHR 0x0A]) [i..<t])\<rparr>)
       (line_stream w)"
proof (induction t b draws i w rule: write_loop.induct)
  case (1 t b draws i w)
  show ?case
  proof (cases "i < t")
    case True
    with 1 show ?thesis
      by (subst write_loop.simps) (simp add: upt_conv_Cons option.map_comp comp_def)
  next
    case False
    then show ?thesis by (subst write_loop.simps) (simp add: option.map_ident)
  qed
qed

lemma writeUsersToNDJSON_with_line_stream:
  "line_stream (writeUsersToNDJSON_with t b draws w) =
     Some \<lparr>contents = concat (map (\<lambda>j. user_line draws j @ [CHR 0x0A]) [0..<t]),
           ls_status = EndRequested, ls_readable = True\<rparr>"
  by (simp add: writeUsersToNDJSON_with_def Let_def write_loop_line_stream)

lemma writeUsersToNDJSON_with_frame [simp]:
  "workbook (writeUsersToNDJSON_with t b draws w) = workbook w"
  "archive (writeUsersToNDJSON_with t b draws w) = archive w"
  by (simp_all add: writeUsersToNDJSON_with_def Let_def)

lemma writeUsersToNDJSON_with_trace:
  "trace (writeUsersToNDJSON_with t b draws w) =
     trace w @ CreateWriteStream LineStream # concat (map (iteration_events b draws) [0..<t])
       @ [StreamEnd LineStream, ConsoleLog FinishedWritingNDJSON, SystemStats CompletedNDJSONWriting]"
  by (simp add: writeUsersToNDJSON_with_def Let_def write_loop_trace)

subsection \<open>Lines and JSON text\<close>

lemma trim_empty_iff: "trim s = [] \<longleftrightarrow> (\<forall>c\<in>set s. is_whitespace c)"
proof
  assume "trim s = []"
  then have "dropWhile is_whitespace (rev (dropWhile is_whitespace s)) = []"
    by (simp add: trim_def)
  then have "\<forall>c\<in>set (rev (dropWhile is_whitespace s)). is_whitespace c"
    by (simp add: dropWhile_eq_Nil_conv)
  then have "dropWhile is_whitespace s = []"
    by (metis dropWhile_eq_Nil_conv hd_dropWhile hd_in_set set_rev)
  then show "\<forall>c\<in>set s. is_whitespace c"
    by (simp add: dropWhile_eq_Nil_conv)
next
  assume "\<forall>c\<in>set s. is_whitespace c"
  then have "dropWhile is_whitespace s = []"
    by (simp add: dropWhile_eq_Nil_conv)
  then show "trim s = []"
    by (auto simp: trim_def dest: set_dropWhileD)
qed





lemma digit_char_in: "digit_char n \<in> set ''0123456789abcdef''"
proof -
  have "n mod 16 < length ''0123456789abcdef''" by simp
  then show ?thesis unfolding digit_char_def by (rule nth_mem)
qed

lemma digit_char_not_terminator [simp]:
  "digit_char n \<noteq> CHR 0x0A" "digit_char n \<noteq> CHR 0x0D"
  "CHR 0x0A \<noteq> digit_char n" "CHR 0x0D \<noteq> digit_char n"
  using digit_char_in [of n] by auto







subsection \<open>The lines of the writer\<close>








subsection \<open>Checkpoints of the writer\<close>

lemma written_at_append_no_write:
  "\<forall>e\<in>set es. \<not> is_write e \<and> \<not> P e \<Longrightarrow> written_at P n (es @ rest) = written_at P n rest"
  by (induction es) simp_all









subsection \<open>The loop of the converter\<close>

lemma new_WorkbookWriter_simps [simp]:
  "line_stream (new_WorkbookWriter w) = line_stream w"
  "workbook (new_WorkbookWriter w) =
     Some \<lparr>columns = None, rows = [], tb_status = Writing, tb_readable = True\<rparr>"
  "archive (new_WorkbookWriter w) = archive w"
  "trace (new_WorkbookWriter w) = trace w @ [WorkbookWriter Table]"
  by (simp_all add: new_WorkbookWriter_def)

lemma addWorksheet_simps [simp]:
  "line_stream (addWorksheet name w) = line_stream w"
  "workbook (addWorksheet name w) = workbook w"
  "archive (addWorksheet name w) = archive w"
  "trace (addWorksheet name w) = trace w @ [AddWorksheet name]"
  by (simp_all add: addWorksheet_def)

lemma set_columns_simps [simp]:
  "line_stream (set_columns cols w) = line_stream w"
  "workbook (set_columns cols w) = map_option (\<lambda>t. t\<lparr>columns := Some cols\<rparr>) (workbook w)"
  "archive (set_columns cols w) = archive w"
  "trace (set_columns cols w) = trace w @ [SetColumns cols]"
  by (simp_all add: set_columns_def)

lemma addRow_commit_simps [simp]:
  "line_stream (addRow_commit user w) = line_stream w"
  "workbook (addRow_commit user w) =
     map_option (\<lambda>t. t\<lparr>rows := rows t @ [row_values (current_columns w) user]\<rparr>) (workbook w)"
  "archive (addRow_commit user w) = archive w"
  "trace (addRow_commit user w) = trace w @ [AddRow (row_values (current_columns w) user)]"
  by (simp_all add: addRow_commit_def Let_def)

lemma workbook_commit_simps [simp]:
  "line_stream (workbook_commit w) = line_stream w"
  "workbook (workbook_commit w) = map_option (\<lambda>t. t\<lparr>tb_status := Closed\<rparr>) (workbook w)"
  "archive (workbook_commit w) = archive w"
  "trace (workbook_commit w) = trace w @ [WorkbookCommit]"
  by (simp_all add: workbook_commit_def)

lemma progress_simps [simp]:
  "line_stream (progress rc w) = line_stream w"
  "workbook (progress rc w) = workbook w"
  "archive (progress rc w) = archive w"
  by (simp_all add: progress_def)

lemma current_columns_simps [simp]:
  "current_columns (emit e w) = current_columns w"
  "current_columns (progress rc w) = current_columns w"
  "current_columns (addRow_commit user w) = current_columns w"
  by (auto simp: current_columns_def split: option.splits)

lemma current_columns_set_columns:
  "workbook w \<noteq> None \<Longrightarrow> current_columns (set_columns cols w) = cols"
  by (auto simp: current_columns_def split: option.splits)

lemma make_column_lambda: "(\<lambda>k. \<lparr>header = k, key = k, width = 20\<rparr>) = make_column"
  by (simp add: make_column_def fun_eq_iff)

lemma convert_lines_blank:
  "trim l = [] \<Longrightarrow> convert_lines parse (l # rest) b n w = convert_lines parse rest b n w"
  by simp

lemma convert_lines_malformed:
  "trim l \<noteq> [] \<Longrightarrow> parse l = None \<Longrightarrow>
   convert_lines parse (l # rest) b n w = Rejected SyntaxError w"
  by simp

lemma convert_lines_later:
  "trim l \<noteq> [] \<Longrightarrow> parse l = Some v \<Longrightarrow>
   convert_lines parse (l # rest) False n w =
     convert_lines parse rest False (n + 1) (progress (n + 1) (addRow_commit v w))"
  by (simp add: Let_def progress_def)

lemma convert_lines_first:
  "trim l \<noteq> [] \<Longrightarrow> parse l = Some v \<Longrightarrow>
   convert_lines parse (l # rest) True n w =
     (case Object_keys v of
        Inl e \<Rightarrow> Rejected e w
      | Inr ks \<Rightarrow>
          convert_lines parse rest False (n + 1)
            (progress (n + 1) (addRow_commit v (set_columns (map make_column ks) w))))"
  by (simp add: Let_def progress_def assign_columns_def make_column_lambda split: sum.splits)

declare convert_lines.simps(2) [simp del]

lemma convert_lines_non_blank:
  "convert_lines parse ls b n w = convert_lines parse (non_blank ls) b n w"
proof (induction ls arbitrary: b n w)
  case Nil
  show ?case by (simp add: non_blank_def)
next
  case (Cons l ls)
  show ?case
  proof (cases "trim l = []")
    case True
    with Cons show ?thesis by (simp add: convert_lines_blank non_blank_def)
  next
    case False
    note nb = this
    show ?thesis
    proof (cases "parse l")
      case None
      with nb show ?thesis by (simp add: convert_lines_malformed non_blank_def)
    next
      case (Some v)
      have nbl: "non_blank (l # ls) = l # non_blank ls"
        using nb by (simp add: non_blank_def)
      show ?thesis
      proof (cases b)
        case True
        then have b: "b = True" by simp
        show ?thesis
          unfolding nbl b
          by (cases "Object_keys v")
            (simp_all add: convert_lines_first [of l parse v] nb Some Cons.IH [symmetric])
      next
        case False
        then have b: "b = False" by simp
        show ?thesis
          unfolding nbl b
          by (simp add: convert_lines_later [of l parse v] nb Some Cons.IH [symmetric])
      qed
    qed
  qed
qed

lemma loop_frame_refl: "loop_frame w w"
  by (simp add: loop_frame_def)

lemma loop_frame_trans: "loop_frame w w1 \<Longrightarrow> loop_frame w1 w2 \<Longrightarrow> loop_frame w w2"
  by (auto simp: loop_frame_def)

lemma loop_frame_row: "loop_frame w (progress rc (addRow_commit v w))"
  by (cases "workbook w") (auto simp: loop_frame_def progress_def)

lemma loop_frame_first:
  "loop_frame w (progress rc (addRow_commit v (set_columns cols w)))"
  by (cases "workbook w") (auto simp: loop_frame_def progress_def)

lemma convert_lines_loop_frame:
  "loop_frame w (world_of (convert_lines parse ls b n w))"
proof (induction ls arbitrary: b n w)
  case Nil
  show ?case by (simp add: loop_frame_refl)
next
  case (Cons l ls)
  show ?case
  proof (cases "trim l = []")
    case True
    then show ?thesis by (simp add: convert_lines_blank Cons.IH)
  next
    case False
    note nb = this
    show ?thesis
    proof (cases "parse l")
      case None
      with nb show ?thesis by (simp add: convert_lines_malformed loop_frame_refl)
    next
      case (Some v)
      show ?thesis
      proof (cases b)
        case True
        then have b: "b = True" by simp
        show ?thesis
        proof (cases "Object_keys v")
          case (Inl e)
          then show ?thesis
            unfolding b by (simp add: convert_lines_first [of l parse v] nb Some loop_frame_refl)
        next
          case (Inr ks)
          then show ?thesis
            unfolding b
            by (simp add: convert_lines_first [of l parse v] nb Some)
              (rule loop_frame_trans [OF loop_frame_first Cons.IH])
        qed
      next
        case False
        then have b: "b = False" by simp
        show ?thesis
          unfolding b
          by (simp add: convert_lines_later [of l parse v] nb Some)
            (rule loop_frame_trans [OF loop_frame_row Cons.IH])
      qed
    qed
  qed
qed

lemma non_blank_Cons_eq:
  "non_blank ls = l # rest \<Longrightarrow> trim l \<noteq> [] \<and> non_blank rest = rest"
proof -
  assume eq: "non_blank ls = l # rest"
  have "\<forall>x\<in>set (non_blank ls). trim x \<noteq> []" by (simp add: non_blank_def)
  with eq have all: "\<forall>x\<in>set (l # rest). trim x \<noteq> []" by simp
  then have "filter (\<lambda>x. trim x \<noteq> []) rest = rest" by (simp add: filter_id_conv)
  with all show ?thesis by (simp add: non_blank_def)
qed

lemma convert_lines_no_lines:
  "non_blank ls = [] \<Longrightarrow> convert_lines parse ls b n w = Resolved w"
  by (subst convert_lines_non_blank) simp

lemma convert_lines_later_all:
  "map parse (non_blank ls) = map Some vs \<Longrightarrow>
   resolved (convert_lines parse ls False n w) \<and>
   workbook (world_of (convert_lines parse ls False n w)) =
     map_option (\<lambda>t. t\<lparr>rows := rows t @ map (row_values (current_columns w)) vs\<rparr>) (workbook w)"
proof (induction ls arbitrary: n w vs)
  case Nil
  then show ?case by (simp add: non_blank_def option.map_ident)
next
  case (Cons l ls)
  show ?case
  proof (cases "trim l = []")
    case True
    with Cons.prems have "map parse (non_blank ls) = map Some vs" by (simp add: non_blank_def)
    from Cons.IH [OF this] True show ?thesis by (simp add: convert_lines_blank)
  next
    case False
    with Cons.prems obtain v vs' where v: "parse l = Some v" and vs: "vs = v # vs'"
      and rest: "map parse (non_blank ls) = map Some vs'"
      by (cases vs) (auto simp: non_blank_def)
    let ?w1 = "progress (n + 1) (addRow_commit v w)"
    have step: "convert_lines parse (l # ls) False n w = convert_lines parse ls False (n + 1) ?w1"
      using False v by (simp add: convert_lines_later [of l parse v])
    from Cons.IH [OF rest, of "n + 1" ?w1] show ?thesis
      unfolding step vs by (cases "workbook w") simp_all
  qed
qed

lemma convert_lines_first_all:
  assumes parsed: "map parse (non_blank ls) = map Some (v # vs)"
    and keys: "Object_keys v = Inr ks"
    and wb: "workbook w = Some t"
  shows "resolved (convert_lines parse ls True n w) \<and>
   workbook (world_of (convert_lines parse ls True n w)) =
     Some (t\<lparr>columns := Some (map make_column ks),
             rows := rows t @ map (row_values (map make_column ks)) (v # vs)\<rparr>)"
proof -
  from parsed obtain l rest where nb: "non_blank ls = l # rest"
    and v: "parse l = Some v" and rest: "map parse rest = map Some vs"
    by (cases "non_blank ls") auto
  from non_blank_Cons_eq [OF nb] have l: "trim l \<noteq> []" and idem: "non_blank rest = rest"
    by simp_all
  let ?w0 = "set_columns (map make_column ks) w"
  let ?w1 = "progress (n + 1) (addRow_commit v ?w0)"
  have step: "convert_lines parse ls True n w = convert_lines parse rest False (n + 1) ?w1"
    by (subst convert_lines_non_blank)
      (simp add: nb convert_lines_first [of l parse v] l v keys)
  have cols: "current_columns ?w1 = map make_column ks"
    using wb by (simp add: current_columns_set_columns)
  from rest idem have "map parse (non_blank rest) = map Some vs" by simp
  from convert_lines_later_all [OF this, of "n + 1" ?w1] show ?thesis
    unfolding step cols using wb by (simp add: current_columns_set_columns)
qed

lemma convert_lines_null_first:
  assumes "map parse (non_blank ls) = map Some (JNull # vs)"
  shows "convert_lines parse ls True n w = Rejected TypeError w"
proof -
  from assms obtain l rest where nb: "non_blank ls = l # rest" and v: "parse l = Some JNull"
    by (cases "non_blank ls") auto
  from non_blank_Cons_eq [OF nb] have l: "trim l \<noteq> []" by simp
  show ?thesis
    by (subst convert_lines_non_blank)
      (simp add: nb convert_lines_first [of l parse JNull] l v)
qed

lemma convert_lines_objects_resolved:
  assumes objects: "map parse (non_blank ls) = map (\<lambda>kvs. Some (JObject kvs)) records"
    and wb: "workbook w = Some t" and empty: "rows t = []"
  shows "\<exists>w1 t1. convert_lines parse ls True n w = Resolved w1 \<and> workbook w1 = Some t1
    \<and> length (rows t1) = length records \<and> tb_status t1 = tb_status t"
proof (cases records)
  case Nil
  with objects have "non_blank ls = []" by simp
  from convert_lines_no_lines [OF this] wb empty Nil show ?thesis by simp
next
  case (Cons kvs rest)
  with objects have parsed: "map parse (non_blank ls) = map Some (JObject kvs # map JObject rest)"
    by (simp add: comp_def)
  have keys: "Object_keys (JObject kvs) = Inr (map fst kvs)" by simp
  let ?r = "convert_lines parse ls True n w"
  from convert_lines_first_all [OF parsed keys wb, of n]
  have res: "resolved ?r"
    and tab: "workbook (world_of ?r) =
      Some (t\<lparr>columns := Some (map make_column (map fst kvs)),
              rows := rows t @ map (row_values (map make_column (map fst kvs)))
                (JObject kvs # map JObject rest)\<rparr>)"
    by simp_all
  from res obtain w1 where r: "?r = Resolved w1" by (cases ?r) auto
  from tab r empty Cons show ?thesis by simp
qed

lemma convert_lines_unparsed:
  "l \<in> set ls \<Longrightarrow> trim l \<noteq> [] \<Longrightarrow> parse l = None \<Longrightarrow>
   \<not> resolved (convert_lines parse ls b n w)"
proof (induction ls arbitrary: b n w)
  case Nil
  then show ?case by simp
next
  case (Cons x xs)
  show ?case
  proof (cases "trim x = []")
    case True
    with Cons.prems have "l \<in> set xs" by auto
    from Cons.IH [OF this Cons.prems(2,3)] True show ?thesis
      by (simp add: convert_lines_blank)
  next
    case False
    note nb = this
    show ?thesis
    proof (cases "parse x")
      case None
      with nb show ?thesis by (simp add: convert_lines_malformed)
    next
      case (Some v)
      with Cons.prems have mem: "l \<in> set xs" by auto
      note IH = Cons.IH [OF mem Cons.prems(2,3)]
      show ?thesis
      proof (cases b)
        case True
        then have b: "b = True" by simp
        show ?thesis
          unfolding b
          by (cases "Object_keys v")
            (simp_all add: convert_lines_first [of x parse v] nb Some IH)
      next
        case False
        then have b: "b = False" by simp
        show ?thesis
          unfolding b by (simp add: convert_lines_later [of x parse v] nb Some IH)
      qed
    qed
  qed
qed

lemma convert_lines_stops:
  "convert_lines parse pre b n w = Resolved w1 \<Longrightarrow> trim bad \<noteq> [] \<Longrightarrow> parse bad = None \<Longrightarrow>
   convert_lines parse (pre @ bad # post) b n w = Rejected SyntaxError w1"
proof (induction pre arbitrary: b n w)
  case Nil
  then show ?case by (simp add: convert_lines_malformed)
next
  case (Cons x xs)
  show ?case
  proof (cases "trim x = []")
    case True
    with Cons.prems(1) have "convert_lines parse xs b n w = Resolved w1"
      by (simp add: convert_lines_blank)
    from Cons.IH [OF this Cons.prems(2,3)] True show ?thesis
      by (simp add: convert_lines_blank)
  next
    case False
    note nb = this
    show ?thesis
    proof (cases "parse x")
      case None
      with nb Cons.prems(1) show ?thesis by (simp add: convert_lines_malformed)
    next
      case (Some v)
      show ?thesis
      proof (cases b)
        case True
        then have b: "b = True" by simp
        show ?thesis
        proof (cases "Object_keys v")
          case (Inl e)
          with Cons.prems(1) show ?thesis
            unfolding b by (simp add: convert_lines_first [of x parse v] nb Some)
        next
          case (Inr ks)
          let ?w' = "progress (n + 1) (addRow_commit v (set_columns (map make_column ks) w))"
          from Cons.prems(1) Inr have "convert_lines parse xs False (n + 1) ?w' = Resolved w1"
            unfolding b by (simp add: convert_lines_first [of x parse v] nb Some)
          from Cons.IH [OF this Cons.prems(2,3)] Inr show ?thesis
            unfolding b by (simp add: convert_lines_first [of x parse v] nb Some)
        qed
      next
        case False
        then have b: "b = False" by simp
        let ?w' = "progress (n + 1) (addRow_commit v w)"
        from Cons.prems(1) have "convert_lines parse xs False (n + 1) ?w' = Resolved w1"
          unfolding b by (simp add: convert_lines_later [of x parse v] nb Some)
        from Cons.IH [OF this Cons.prems(2,3)] show ?thesis
          unfolding b by (simp add: convert_lines_later [of x parse v] nb Some)
      qed
    qed
  qed
qed

subsection \<open>The converter as a whole\<close>

lemma converter_start_simps [simp]:
  "line_stream (converter_start w) = line_stream w"
  "workbook (converter_start w) =
     Some \<lparr>columns = None, rows = [], tb_status = Writing, tb_readable = True\<rparr>"
  "archive (converter_start w) = archive w"
  "trace (converter_start w) =
     trace w @ [WorkbookWriter Table, AddWorksheet ''Users'', CreateReadStream LineStream]"
  by (simp_all add: converter_start_def)

lemma converter_finish_simps [simp]:
  "line_stream (converter_finish w) = line_stream w"
  "workbook (converter_finish w) = map_option (\<lambda>t. t\<lparr>tb_status := Closed\<rparr>) (workbook w)"
  "archive (converter_finish w) = archive w"
  "trace (converter_finish w) =
     trace w @ [WorkbookCommit, ConsoleLog FinishedConvertingToExcel,
                SystemStats CompletedExcelWriting]"
  by (simp_all add: converter_finish_def)

lemma convertNDJSONToXLSX_readable:
  "line_stream w = Some f \<Longrightarrow> ls_readable f \<Longrightarrow>
   convertNDJSONToXLSX parse w =
     (case convert_lines parse (readline (contents f)) True 0 (converter_start w) of
        Rejected e w' \<Rightarrow> Rejected e w'
      | Resolved w4 \<Rightarrow> Resolved (converter_finish w4))"
  by (simp add: convertNDJSONToXLSX_def Let_def converter_start_def converter_finish_def
      split: outcome.splits)

lemma convertNDJSONToXLSX_missing:
  "line_stream w = None \<Longrightarrow> convertNDJSONToXLSX parse w = Rejected ENOENT (converter_start w)"
  by (simp add: convertNDJSONToXLSX_def Let_def converter_start_def)

lemma convertNDJSONToXLSX_unreadable:
  "line_stream w = Some f \<Longrightarrow> \<not> ls_readable f \<Longrightarrow>
   convertNDJSONToXLSX parse w = Rejected EACCES (converter_start w)"
  by (simp add: convertNDJSONToXLSX_def Let_def converter_start_def)

lemma convertNDJSONToXLSX_records:
  assumes src: "line_stream w = Some f" "ls_readable f"
    and parsed: "map parse (non_blank (readline (contents f))) = map Some (v # vs)"
    and keys: "Object_keys v = Inr ks"
  shows "\<exists>w'. convertNDJSONToXLSX parse w = Resolved w' \<and> line_stream w' = Some f
    \<and> archive w' = archive w
    \<and> workbook w' =
        Some \<lparr>columns = Some (map make_column ks),
              rows = map (row_values (map make_column ks)) (v # vs),
              tb_status = Closed, tb_readable = True\<rparr>"
proof -
  let ?r = "convert_lines parse (readline (contents f)) True 0 (converter_start w)"
  have wb: "workbook (converter_start w) =
      Some \<lparr>columns = None, rows = [], tb_status = Writing, tb_readable = True\<rparr>"
    by simp
  from convert_lines_first_all [OF parsed keys wb, of 0]
  have res: "resolved ?r"
    and tab: "workbook (world_of ?r) =
      Some \<lparr>columns = Some (map make_column ks),
            rows = map (row_values (map make_column ks)) (v # vs),
            tb_status = Writing, tb_readable = True\<rparr>"
    by simp_all
  from res obtain w4 where r: "?r = Resolved w4" by (cases ?r) auto
  from convert_lines_loop_frame [of "converter_start w" parse "readline (contents f)" True 0]
  have fr: "line_stream w4 = line_stream w" "archive w4 = archive w"
    by (simp_all add: r loop_frame_def)
  from tab have tab4: "workbook w4 =
      Some \<lparr>columns = Some (map make_column ks),
            rows = map (row_values (map make_column ks)) (v # vs),
            tb_status = Writing, tb_readable = True\<rparr>"
    by (simp add: r)
  show ?thesis
    by (simp add: convertNDJSONToXLSX_readable [OF src] r fr src tab4)
qed

lemma convertNDJSONToXLSX_no_records:
  assumes src: "line_stream w = Some f" "ls_readable f"
    and none: "non_blank (readline (contents f)) = []"
  shows "convertNDJSONToXLSX parse w = Resolved (converter_finish (converter_start w))"
  by (simp add: convertNDJSONToXLSX_readable [OF src] convert_lines_no_lines [OF none])

lemma convertNDJSONToXLSX_rejected:
  assumes "convertNDJSONToXLSX parse w = Rejected e w'"
  shows "line_stream w' = line_stream w \<and> archive w' = archive w
    \<and> map_option tb_status (workbook w') = Some Writing
    \<and> WorkbookCommit \<notin> set (emitted w w')"
proof -
  have fr: "loop_frame (converter_start w) w'"
  proof (cases "line_stream w")
    case None
    with assms show ?thesis by (simp add: convertNDJSONToXLSX_missing loop_frame_refl)
  next
    case (Some f)
    show ?thesis
    proof (cases "ls_readable f")
      case False
      with Some assms show ?thesis
        by (simp add: convertNDJSONToXLSX_unreadable loop_frame_refl)
    next
      case True
      let ?r = "convert_lines parse (readline (contents f)) True 0 (converter_start w)"
      from assms have "?r = Rejected e w'"
        by (cases ?r) (simp_all add: convertNDJSONToXLSX_readable [OF Some True])
      with convert_lines_loop_frame [of "converter_start w" parse "readline (contents f)" True 0]
      show ?thesis by simp
    qed
  qed
  then obtain es where es: "trace w' = trace (converter_start w) @ es"
    and no: "WorkbookCommit \<notin> set es"
    by (auto simp: loop_frame_def)
  from es no have "WorkbookCommit \<notin> set (emitted w w')"
    by (simp add: emitted_def)
  with fr show ?thesis by (simp add: loop_frame_def)
qed

lemma convertNDJSONToXLSX_malformed:
  assumes src: "line_stream w = Some f" "ls_readable f"
    and bad: "l \<in> set (readline (contents f))" "trim l \<noteq> []" "parse l = None"
  shows "\<not> resolved (convertNDJSONToXLSX parse w)"
proof -
  let ?r = "convert_lines parse (readline (contents f)) True 0 (converter_start w)"
  from convert_lines_unparsed [of l "readline (contents f)" parse, OF bad]
  have "\<not> resolved ?r" .
  then show ?thesis
    by (cases ?r) (simp_all add: convertNDJSONToXLSX_readable [OF src])
qed

lemma convertNDJSONToXLSX_trace:
  "\<exists>es. trace (world_of (convertNDJSONToXLSX parse w)) =
     trace w @ [WorkbookWriter Table, AddWorksheet ''Users'', CreateReadStream LineStream] @ es"
proof (cases "line_stream w")
  case None
  then show ?thesis by (simp add: convertNDJSONToXLSX_missing)
next
  case (Some f)
  show ?thesis
  proof (cases "ls_readable f")
    case False
    with Some show ?thesis by (simp add: convertNDJSONToXLSX_unreadable)
  next
    case True
    let ?r = "convert_lines parse (readline (contents f)) True 0 (converter_start w)"
    from convert_lines_loop_frame [of "converter_start w" parse "readline (contents f)" True 0]
    obtain es where es: "trace (world_of ?r) = trace (converter_start w) @ es"
      by (auto simp: loop_frame_def)
    then show ?thesis
      by (cases ?r) (simp_all add: convertNDJSONToXLSX_readable [OF Some True])
  qed
qed





lemma Object_keys_not_null: "v \<noteq> JNull \<Longrightarrow> \<exists>ks. Object_keys v = Inr ks"
  by (cases v) simp_all

lemma convertNDJSONToXLSX_resolved_closed:
  assumes "convertNDJSONToXLSX parse w = Resolved w'"
  shows "map_option tb_status (workbook w') = Some Closed"
proof (cases "line_stream w")
  case None
  with assms show ?thesis by (simp add: convertNDJSONToXLSX_missing)
next
  case (Some f)
  show ?thesis
  proof (cases "ls_readable f")
    case False
    with Some assms show ?thesis by (simp add: convertNDJSONToXLSX_unreadable)
  next
    case True
    let ?r = "convert_lines parse (readline (contents f)) True 0 (converter_start w)"
    from assms obtain w4 where r: "?r = Resolved w4" and w': "w' = converter_finish w4"
      by (cases ?r) (simp_all add: convertNDJSONToXLSX_readable [OF Some True])
    from convert_lines_loop_frame [of "converter_start w" parse "readline (contents f)" True 0]
    have "map_option tb_status (workbook w4) = Some Writing"
      by (simp add: r loop_frame_def)
    then obtain t4 where "workbook w4 = Some t4" by auto
    then show ?thesis by (simp add: w')
  qed
qed

subsection \<open>The archiver\<close>

lemma basename_path_join:
  "CHR ''/'' \<notin> set name \<Longrightarrow> basename (path_join dir name) = name"
proof -
  assume no: "CHR ''/'' \<notin> set name"
  have "rev (path_join dir name) = rev name @ CHR ''/'' # rev dir"
    by (simp add: path_join_def)
  moreover have "takeWhile (\<lambda>c. c \<noteq> CHR ''/'') (rev name @ CHR ''/'' # rev dir) = rev name"
    using no by (subst takeWhile_append2) auto
  ultimately show ?thesis by (simp add: basename_def)
qed

lemma basename_artifacts:
  "basename (ndjsonPath dirname) = ''users_stream.ndjson''"
  "basename (xlsxPath dirname) = ''users_stream.xlsx''"
  "basename (zipPath dirname) = ''users_export.zip''"
  by (simp_all add: ndjsonPath_def xlsxPath_def zipPath_def basename_path_join)

lemma zipFiles_both:
  assumes "line_stream w = Some f" "ls_readable f" "workbook w = Some t" "tb_readable t"
  shows "zipFiles w =
    Resolved (w\<lparr>archive := Some \<lparr>entries = [(''users_stream.ndjson'', Bytes (contents f)),
                                             (''users_stream.xlsx'', Sheet (columns t) (rows t))],
                                  ar_status = Closed\<rparr>,
                trace := trace w @ [CreateWriteStream Archive, Archiver 9, ArchivePipe Archive,
                  ArchiveFile LineStream ''users_stream.ndjson'',
                  ArchiveFile Table ''users_stream.xlsx'', ArchiveFinalize,
                  CloseEvent Archive, ConsoleLog ZipCreated, SystemStats CompletedZipping]\<rparr>)"
  using assms
  by (simp add: zipFiles_def Let_def createWriteStream_zip_def archive_finalize_def
      output_close_def append_entry_def emit_def console_log_def logSystemStats_def)

lemma archiver_process_archive:
  "archive w \<noteq> None \<Longrightarrow> archive (world_of (archiver_process queue w)) \<noteq> None"
proof (induction queue arbitrary: w)
  case Nil
  then show ?case by simp
next
  case (Cons q queue)
  obtain a name where q: "q = (a, name)" by (cases q)
  show ?case
  proof (cases "read_source a w")
    case (Inl e)
    from Cons.prems have "archive (emit (WarningEvent e) w) \<noteq> None" by simp
    from Cons.IH [OF this] Inl q Cons.prems show ?thesis by auto
  next
    case (Inr d)
    from Cons.prems have "archive (append_entry name d w) \<noteq> None"
      by (auto simp: append_entry_def)
    from Cons.IH [OF this] Inr q show ?thesis by simp
  qed
qed

lemma zipFiles_resolved_closed:
  assumes "zipFiles w = Resolved w'"
  shows "map_option ar_status (archive w') = Some Closed"
proof -
  let ?w6 = "archive_finalize (emit (ArchiveFile Table ''users_stream.xlsx'')
    (emit (ArchiveFile LineStream ''users_stream.ndjson'')
      (emit (ArchivePipe Archive) (emit (Archiver 9) (createWriteStream_zip w)))))"
  let ?r = "archiver_process
    [(LineStream, ''users_stream.ndjson''), (Table, ''users_stream.xlsx'')] ?w6"
  have "archive ?w6 \<noteq> None"
    by (simp add: archive_finalize_def createWriteStream_zip_def)
  from archiver_process_archive [OF this]
  obtain a where a: "archive (world_of ?r) = Some a" by blast
  from assms obtain w7 where r: "?r = Resolved w7"
    and w': "w' = logSystemStats CompletedZipping (console_log ZipCreated (output_close w7))"
    by (cases ?r) (auto simp: zipFiles_def Let_def)
  from a r have "archive w7 = Some a" by simp
  then show ?thesis by (simp add: w' output_close_def)
qed

lemma zipFiles_unreadable_source:
  "line_stream w = Some f \<Longrightarrow> \<not> ls_readable f \<Longrightarrow> \<exists>w'. zipFiles w = Rejected EACCES w'"
  by (simp add: zipFiles_def Let_def createWriteStream_zip_def archive_finalize_def)

lemma archiver_process_trace:
  "\<exists>es. trace (world_of (archiver_process queue w)) = trace w @ es"
proof (induction queue arbitrary: w)
  case Nil
  show ?case by simp
next
  case (Cons q queue)
  obtain a name where q: "q = (a, name)" by (cases q)
  show ?case
  proof (cases "read_source a w")
    case (Inl e)
    show ?thesis
    proof (cases "e = ENOENT")
      case True
      from Cons.IH [of "emit (WarningEvent e) w"] obtain es
        where "trace (world_of (archiver_process queue (emit (WarningEvent e) w))) =
          trace (emit (WarningEvent e) w) @ es" ..
      with Inl True q show ?thesis by simp
    next
      case False
      with Inl q show ?thesis by simp
    qed
  next
    case (Inr d)
    from Cons.IH [of "append_entry name d w"] obtain es
      where "trace (world_of (archiver_process queue (append_entry name d w))) =
        trace (append_entry name d w) @ es" ..
    with Inr q show ?thesis by (simp add: append_entry_def)
  qed
qed

lemma zipFiles_trace: "\<exists>es. trace (world_of (zipFiles w)) = trace w @ es"
proof -
  let ?w6 = "archive_finalize (emit (ArchiveFile Table ''users_stream.xlsx'')
    (emit (ArchiveFile LineStream ''users_stream.ndjson'')
      (emit (ArchivePipe Archive) (emit (Archiver 9) (createWriteStream_zip w)))))"
  let ?r = "archiver_process
    [(LineStream, ''users_stream.ndjson''), (Table, ''users_stream.xlsx'')] ?w6"
  from archiver_process_trace [of _ ?w6] obtain es where es: "trace (world_of ?r) = trace ?w6 @ es"
    by blast
  have w6: "\<exists>es. trace ?w6 = trace w @ es"
    by (simp add: archive_finalize_def createWriteStream_zip_def)
  show ?thesis
  proof (cases ?r)
    case (Resolved w7)
    with es w6 show ?thesis
      by (auto simp: zipFiles_def Let_def output_close_def)
  next
    case (Rejected e w')
    with es w6 show ?thesis
      by (auto simp: zipFiles_def Let_def)
  qed
qed

subsection \<open>The trace of the job\<close>

lemma job_with_trace:
  "\<exists>es. emitted w (world_of (job_with t b draws parse w)) =
     [ConsoleLog JobStarted, SystemStats JobStart, CreateWriteStream LineStream]
     @ concat (map (iteration_events b draws) [0..<t])
     @ [StreamEnd LineStream, ConsoleLog FinishedWritingNDJSON,
        SystemStats CompletedNDJSONWriting,
        WorkbookWriter Table, AddWorksheet ''Users'', CreateReadStream LineStream]
     @ es"
proof -
  let ?w3 = "writeUsersToNDJSON_with t b draws
    (logSystemStats JobStart (console_log JobStarted w))"
  let ?pre = "[ConsoleLog JobStarted, SystemStats JobStart, CreateWriteStream LineStream]
     @ concat (map (iteration_events b draws) [0..<t])
     @ [StreamEnd LineStream, ConsoleLog FinishedWritingNDJSON,
        SystemStats CompletedNDJSONWriting,
        WorkbookWriter Table, AddWorksheet ''Users'', CreateReadStream LineStream]"
  let ?c = "convertNDJSONToXLSX parse ?w3"
  from convertNDJSONToXLSX_trace [of parse ?w3] obtain es
    where "trace (world_of ?c) =
      trace ?w3 @ [WorkbookWriter Table, AddWorksheet ''Users'', CreateReadStream LineStream] @ es"
    by blast
  then have c: "trace (world_of ?c) = trace w @ ?pre @ es"
    by (simp add: writeUsersToNDJSON_with_trace)
  show ?thesis
  proof (cases ?c)
    case (Rejected e w')
    with c have "trace (world_of (job_with t b draws parse w)) = trace w @ ?pre @ es"
      by (simp add: job_with_def Let_def)
    then show ?thesis by (simp add: emitted_def)
  next
    case (Resolved w4)
    with c have w4: "trace w4 = trace w @ ?pre @ es" by simp
    from zipFiles_trace [of w4] obtain es' where z: "trace (world_of (zipFiles w4)) = trace w4 @ es'"
      by blast
    have "\<exists>es''. trace (world_of (job_with t b draws parse w)) = trace w @ ?pre @ es''"
    proof (cases "zipFiles w4")
      case (Rejected e w')
      with z w4 Resolved show ?thesis
        by (simp add: job_with_def Let_def)
    next
      case (Resolved w5)
      with z w4 \<open>?c = Resolved w4\<close> show ?thesis
        by (simp add: job_with_def Let_def)
    qed
    then show ?thesis by (auto simp: emitted_def)
  qed
qed

subsection \<open>The sample inputs\<close>

lemma empty_world_simps [simp]:
  "line_stream empty_world = None"
  "workbook empty_world = None"
  "archive empty_world = None"
  "trace empty_world = []"
  by (simp_all add: empty_world_def)

lemma source_world_simps [simp]:
  "line_stream (source_world s) = Some \<lparr>contents = s, ls_status = Closed, ls_readable = True\<rparr>"
  "workbook (source_world s) = None"
  "archive (source_world s) = None"
  "trace (source_world s) = []"
  by (simp_all add: source_world_def)

lemma sample_source_file:
  "line_stream (source_world s) = Some \<lparr>contents = s, ls_status = Closed, ls_readable = True\<rparr>"
  "ls_readable \<lparr>contents = s, ls_status = Closed, ls_readable = True\<rparr>"
  by simp_all

lemma readline_sample_source:
  \<open>readline sample_source = [''{"a":"1","b":"2"}'', ''  '', ''{"b":"3","c":"4"}'']\<close>
  by (simp add: sample_source_def readline_def)

lemma readline_malformed_source:
  \<open>readline malformed_source = [''{"a":"1","b":"2"}'', ''{oops'', ''{"b":"3","c":"4"}'']\<close>
  by (simp add: malformed_source_def readline_def)

lemma readline_number_source:
  \<open>readline number_source = [''{"a":"1","b":"2"}'', ''123'', ''{"b":"3","c":"4"}'']\<close>
  by (simp add: number_source_def readline_def)

lemma trim_samples:
  \<open>trim ''{"a":"1","b":"2"}'' \<noteq> []\<close> \<open>trim ''{"b":"3","c":"4"}'' \<noteq> []\<close>
  \<open>trim ''123'' \<noteq> []\<close> \<open>trim ''{oops'' \<noteq> []\<close> \<open>trim ''  '' = []\<close>
  by (simp_all add: trim_empty_iff is_whitespace_def)

lemma sample_parse_samples:
  \<open>sample_parse ''{"a":"1","b":"2"}'' = Some (JObject [(''a'', JString ''1''), (''b'', JString ''2'')])\<close>
  \<open>sample_parse ''{"b":"3","c":"4"}'' = Some (JObject [(''b'', JString ''3''), (''c'', JString ''4'')])\<close>
  \<open>sample_parse ''123'' = Some (JNumber 123)\<close>
  \<open>sample_parse ''{oops'' = None\<close>
  by (simp_all add: sample_parse_def)

lemma non_blank_sample_source:
  \<open>non_blank (readline sample_source) = [''{"a":"1","b":"2"}'', ''{"b":"3","c":"4"}'']\<close>
  by (simp add: readline_sample_source non_blank_def trim_samples)

lemma non_blank_empty_source: "non_blank (readline []) = []"
  by (simp add: readline_def non_blank_def)

lemma non_blank_malformed_source:
  \<open>non_blank (readline malformed_source) = [''{"a":"1","b":"2"}'', ''{oops'', ''{"b":"3","c":"4"}'']\<close>
  by (simp add: readline_malformed_source non_blank_def trim_samples)

lemma non_blank_number_source:
  \<open>non_blank (readline number_source) = [''{"a":"1","b":"2"}'', ''123'', ''{"b":"3","c":"4"}'']\<close>
  by (simp add: readline_number_source non_blank_def trim_samples)




section \<open>The claims\<close>

subsection \<open>C1: the lines of the generated file\<close>



subsection \<open>C2: checkpoints of the writer\<close>



subsection \<open>C3: the stages in sequence\<close>

text \<open>
  C3 does not hold of the source for the first hand-over. When \<^verbatim>\<open>writeUsersToNDJSON\<close>
  returns, for any number of records, the line-stream sink has been asked to end and
  no completion event of it has been waited for; in every run of the job the converter
  opens the workbook and the read stream directly after the last effects of the writer.
  The second hand-over is in order: the converter resolves only once the commit of the
  workbook has been waited for (\<open>convertNDJSONToXLSX_resolved_closed\<close>).
\<close>

theorem C3_line_stream_not_awaited:
  "map_option ls_status (line_stream (writeUsersToNDJSON_with t b draws w)) = Some EndRequested
   \<and> CloseEvent LineStream \<notin> set (emitted w (writeUsersToNDJSON_with t b draws w))
   \<and> map_option ls_status (line_stream (writeUsersToNDJSON draws w)) = Some EndRequested
   \<and> (\<exists>es. emitted w (world_of (job_with t b draws parse w)) =
        [ConsoleLog JobStarted, SystemStats JobStart, CreateWriteStream LineStream]
        @ concat (map (iteration_events b draws) [0..<t])
        @ [StreamEnd LineStream, ConsoleLog FinishedWritingNDJSON,
           SystemStats CompletedNDJSONWriting,
           WorkbookWriter Table, AddWorksheet ''Users'', CreateReadStream LineStream]
        @ es)"
proof -
  have "CloseEvent LineStream \<notin> set (iteration_events b draws i)" for i
    by (simp add: iteration_events_def checkpoint_events_def)
  then have "CloseEvent LineStream \<notin> set (emitted w (writeUsersToNDJSON_with t b draws w))"
    by (simp add: writeUsersToNDJSON_with_trace emitted_def)
  with job_with_trace [of w t b draws parse] show ?thesis
    by (simp add: writeUsersToNDJSON_with_line_stream writeUsersToNDJSON_def)
qed

subsection \<open>C4: rows of the table\<close>

text \<open>
  C4, as amended. For a readable source whose non-blank lines each parse to a JSON object,
  the conversion resolves and the table holds one data row per non-blank line; it holds
  exactly one header row when there is at least one non-blank line, and no header row
  when there is none.
\<close>

theorem C4_row_count:
  assumes src: "line_stream w = Some f" "ls_readable f"
    and objects: "map parse (non_blank (readline (contents f))) = map (\<lambda>kvs. Some (JObject kvs)) records"
  shows "\<exists>w' t. convertNDJSONToXLSX parse w = Resolved w' \<and> workbook w' = Some t
    \<and> length (data_rows t) = length (non_blank (readline (contents f)))
    \<and> length (header_rows t) = (if non_blank (readline (contents f)) = [] then 0 else 1)"
proof (cases records)
  case Nil
  with objects have none: "non_blank (readline (contents f)) = []" by simp
  show ?thesis
    by (simp add: convertNDJSONToXLSX_no_records [OF src none] none data_rows_def
        header_rows_def)
next
  case (Cons kvs rest)
  with objects have parsed: "map parse (non_blank (readline (contents f))) =
      map Some (JObject kvs # map JObject rest)"
    by (simp add: comp_def)
  have keys: "Object_keys (JObject kvs) = Inr (map fst kvs)" by simp
  from parsed have len: "length (non_blank (readline (contents f))) = Suc (length rest)"
    by (metis length_Cons length_map)
  then have ne: "non_blank (readline (contents f)) \<noteq> []" by auto
  from convertNDJSONToXLSX_records [OF src parsed keys] show ?thesis
    by (auto simp: data_rows_def header_rows_def len ne)
qed

text \<open>A source of three lines, one of them blank: two data rows and one header row.\<close>

theorem C4_row_count_witness:
  "\<exists>w' t. convertNDJSONToXLSX sample_parse (source_world sample_source) = Resolved w'
     \<and> workbook w' = Some t \<and> length (data_rows t) = 2 \<and> length (header_rows t) = 1"
proof -
  let ?f = "\<lparr>contents = sample_source, ls_status = Closed, ls_readable = True\<rparr>"
  have src: "line_stream (source_world sample_source) = Some ?f" "ls_readable ?f"
    by simp_all
  have objects: "map sample_parse (non_blank (readline (contents ?f))) =
      map (\<lambda>kvs. Some (JObject kvs))
        [[(''a'', JString ''1''), (''b'', JString ''2'')],
         [(''b'', JString ''3''), (''c'', JString ''4'')]]"
    by (simp add: non_blank_sample_source sample_parse_samples)
  from C4_row_count [OF src objects] show ?thesis
    by (simp add: non_blank_sample_source numeral_2_eq_2)
qed

text \<open>
  C4 as stated asks for exactly one header row for every number \<open>K\<close> of non-blank lines.
  For the empty source (\<open>K = 0\<close>) the conversion resolves and the table has no header
  row: the columns are assigned from the first record only.
\<close>

theorem C4_no_header_counterexample:
  "non_blank (readline (contents \<lparr>contents = [], ls_status = Closed, ls_readable = True\<rparr>)) = []
   \<and> resolved (convertNDJSONToXLSX sample_parse (source_world []))
   \<and> map_option header_rows (workbook (world_of (convertNDJSONToXLSX sample_parse (source_world []))))
       = Some []"
proof -
  let ?f = "\<lparr>contents = [], ls_status = Closed, ls_readable = True\<rparr>"
  have src: "line_stream (source_world []) = Some ?f" "ls_readable ?f"
    by simp_all
  have none: "non_blank (readline (contents ?f)) = []"
    by (simp add: non_blank_empty_source)
  show ?thesis
    by (simp add: convertNDJSONToXLSX_no_records [OF src none] non_blank_empty_source
        header_rows_def)
qed

subsection \<open>C5: the schema is that of the first record\<close>



subsection \<open>C6: blank lines and malformed lines\<close>

text \<open>
  C6, as amended. The loop of the converter gives the same outcome for a list of lines
  and for its non-blank lines: a blank line raises no error and adds no row. For a
  readable source, a non-blank line on which \<^verbatim>\<open>JSON.parse\<close> throws keeps the conversion
  from resolving; when the non-blank lines before the first such line parse to objects,
  the conversion rejects with \<^verbatim>\<open>SyntaxError\<close> in the state reached before that line:
  the table holds the rows of the records before it and no row of a later line, and it
  is not finalised. When every non-blank line parses and the first value is not
  \<^verbatim>\<open>null\<close>, the conversion resolves, whatever kinds of JSON values the lines hold.
\<close>

theorem C6_blank_skipped_malformed_fatal:
  assumes src: "line_stream w = Some f" "ls_readable f"
  shows "convert_lines parse ls b n w0 = convert_lines parse (non_blank ls) b n w0
    \<and> ((\<exists>l\<in>set (readline (contents f)). trim l \<noteq> [] \<and> parse l = None) \<longrightarrow>
          \<not> resolved (convertNDJSONToXLSX parse w))
    \<and> (\<forall>pre bad post records.
          readline (contents f) = pre @ bad # post \<and> trim bad \<noteq> [] \<and> parse bad = None
          \<and> map parse (non_blank pre) = map (\<lambda>kvs. Some (JObject kvs)) records \<longrightarrow>
          (\<exists>w' t. convertNDJSONToXLSX parse w = Rejected SyntaxError w' \<and> workbook w' = Some t
             \<and> length (rows t) = length records \<and> tb_status t = Writing))
    \<and> (\<forall>v vs. map parse (non_blank (readline (contents f))) = map Some (v # vs) \<and> v \<noteq> JNull \<longrightarrow>
          resolved (convertNDJSONToXLSX parse w))"
proof (intro conjI allI impI)
  show "convert_lines parse ls b n w0 = convert_lines parse (non_blank ls) b n w0"
    by (rule convert_lines_non_blank)
next
  assume "\<exists>l\<in>set (readline (contents f)). trim l \<noteq> [] \<and> parse l = None"
  then obtain l where "l \<in> set (readline (contents f))" "trim l \<noteq> []" "parse l = None"
    by blast
  from convertNDJSONToXLSX_malformed [of w f l parse, OF src this]
  show "\<not> resolved (convertNDJSONToXLSX parse w)" .
next
  fix pre bad post records
  assume a: "readline (contents f) = pre @ bad # post \<and> trim bad \<noteq> [] \<and> parse bad = None
    \<and> map parse (non_blank pre) = map (\<lambda>kvs. Some (JObject kvs)) records"
  let ?t0 = "\<lparr>columns = None, rows = [], tb_status = Writing, tb_readable = True\<rparr>"
  have wb: "workbook (converter_start w) = Some ?t0" by simp
  from a have objects: "map parse (non_blank pre) = map (\<lambda>kvs. Some (JObject kvs)) records"
    by simp
  from convert_lines_objects_resolved [OF objects wb, of 0]
  obtain w1 t1 where pre: "convert_lines parse pre True 0 (converter_start w) = Resolved w1"
    and t1: "workbook w1 = Some t1" "length (rows t1) = length records" "tb_status t1 = Writing"
    by auto
  from a have bad: "trim bad \<noteq> []" "parse bad = None" by simp_all
  from convert_lines_stops [OF pre bad, of post] a
  have "convert_lines parse (readline (contents f)) True 0 (converter_start w) =
      Rejected SyntaxError w1"
    by simp
  then have "convertNDJSONToXLSX parse w = Rejected SyntaxError w1"
    by (simp add: convertNDJSONToXLSX_readable [OF src])
  with t1 show "\<exists>w' t. convertNDJSONToXLSX parse w = Rejected SyntaxError w' \<and> workbook w' = Some t
    \<and> length (rows t) = length records \<and> tb_status t = Writing"
    by blast
next
  fix v vs
  assume a: "map parse (non_blank (readline (contents f))) = map Some (v # vs) \<and> v \<noteq> JNull"
  then obtain ks where keys: "Object_keys v = Inr ks"
    using Object_keys_not_null by blast
  from a have parsed: "map parse (non_blank (readline (contents f))) = map Some (v # vs)"
    by simp
  from convertNDJSONToXLSX_records [OF src parsed keys]
  show "resolved (convertNDJSONToXLSX parse w)" by auto
qed

text \<open>
  A source whose second line is malformed: the conversion rejects with
  \<^verbatim>\<open>SyntaxError\<close>, the table holding the one row of the first line. The sample source,
  whose lines all parse: the conversion resolves.
\<close>

theorem C6_blank_skipped_malformed_fatal_witness:
  "\<not> resolved (convertNDJSONToXLSX sample_parse (source_world malformed_source))
   \<and> (\<exists>w' t. convertNDJSONToXLSX sample_parse (source_world malformed_source) =
          Rejected SyntaxError w'
        \<and> workbook w' = Some t \<and> length (rows t) = 1 \<and> tb_status t = Writing)
   \<and> resolved (convertNDJSONToXLSX sample_parse (source_world sample_source))"
proof -
  let ?g = "\<lparr>contents = sample_source, ls_status = Closed, ls_readable = True\<rparr>"
  have parsed: "map sample_parse (non_blank (readline (contents ?g))) =
      map Some (JObject [(''a'', JString ''1''), (''b'', JString ''2'')]
        # [JObject [(''b'', JString ''3''), (''c'', JString ''4'')]])
      \<and> JObject [(''a'', JString ''1''), (''b'', JString ''2'')] \<noteq> JNull"
    by (simp add: non_blank_sample_source sample_parse_samples)
  from C6_blank_skipped_malformed_fatal [of "source_world sample_source" ?g sample_parse,
      OF sample_source_file] parsed
  have three: "resolved (convertNDJSONToXLSX sample_parse (source_world sample_source))"
    by blast
  let ?f = "\<lparr>contents = malformed_source, ls_status = Closed, ls_readable = True\<rparr>"
  let ?first = "[(''a'', JString ''1''), (''b'', JString ''2'')]"
  note C6 = C6_blank_skipped_malformed_fatal [of "source_world malformed_source" ?f sample_parse,
      OF sample_source_file]
  have bad: "\<exists>l\<in>set (readline (contents ?f)). trim l \<noteq> [] \<and> sample_parse l = None"
    by (simp add: readline_malformed_source trim_samples sample_parse_samples)
  from C6 bad have one: "\<not> resolved (convertNDJSONToXLSX sample_parse (source_world malformed_source))"
    by blast
  have split: \<open>readline (contents ?f) = [''{"a":"1","b":"2"}''] @ ''{oops'' # [''{"b":"3","c":"4"}'']
    \<and> trim ''{oops'' \<noteq> [] \<and> sample_parse ''{oops'' = None
    \<and> map sample_parse (non_blank [''{"a":"1","b":"2"}'']) =
        map (\<lambda>kvs. Some (JObject kvs)) [?first]\<close>
    by (simp add: readline_malformed_source trim_samples sample_parse_samples non_blank_def)
  from C6 split
  have "\<exists>w' t. convertNDJSONToXLSX sample_parse (source_world malformed_source) =
          Rejected SyntaxError w'
        \<and> workbook w' = Some t \<and> length (rows t) = length [?first] \<and> tb_status t = Writing"
    by blast
  with one three show ?thesis by simp
qed

text \<open>
  C6 as stated has every non-blank line that does not parse as a JSON object abort the
  conversion. The line \<^verbatim>\<open>123\<close> parses, to a number; the conversion resolves, with an
  empty row for that line and the row of the line after it.
\<close>

theorem C6_number_line_counterexample:
  \<open>readline number_source = [''{"a":"1","b":"2"}'', ''123'', ''{"b":"3","c":"4"}'']
   \<and> trim ''123'' \<noteq> [] \<and> sample_parse ''123'' = Some (JNumber 123)
   \<and> resolved (convertNDJSONToXLSX sample_parse (source_world number_source))
   \<and> map_option rows (workbook (world_of (convertNDJSONToXLSX sample_parse (source_world number_source))))
       = Some [[(1, JString ''1''), (2, JString ''2'')], [], [(2, JString ''3'')]]\<close>
proof -
  let ?f = "\<lparr>contents = number_source, ls_status = Closed, ls_readable = True\<rparr>"
  let ?first = "JObject [(''a'', JString ''1''), (''b'', JString ''2'')]"
  let ?third = "JObject [(''b'', JString ''3''), (''c'', JString ''4'')]"
  have parsed: "map sample_parse (non_blank (readline (contents ?f))) =
      map Some (?first # [JNumber 123, ?third])"
    by (simp add: non_blank_number_source sample_parse_samples)
  have keys: "Object_keys ?first = Inr [''a'', ''b'']" by simp
  from convertNDJSONToXLSX_records [OF sample_source_file parsed keys]
  obtain w' where res: "convertNDJSONToXLSX sample_parse (source_world number_source) = Resolved w'"
    and wb: "workbook w' =
        Some \<lparr>columns = Some (map make_column [''a'', ''b'']),
              rows = map (row_values (map make_column [''a'', ''b''])) (?first # [JNumber 123, ?third]),
              tb_status = Closed, tb_readable = True\<rparr>"
    by blast
  have rows: "map (row_values (map make_column [''a'', ''b''])) (?first # [JNumber 123, ?third]) =
      [[(1, JString ''1''), (2, JString ''2'')], [], [(2, JString ''3'')]]"
    by (simp add: keyed_cells_def make_column_def enumerate_eq_zip)
  show ?thesis
    by (simp add: res wb [unfolded rows] readline_number_source trim_samples
        sample_parse_samples)
qed

subsection \<open>C7: the entries of the archive\<close>

text \<open>
  C7. When the line-stream file and the table file exist and can be read, \<^verbatim>\<open>zipFiles\<close>
  resolves with an archive of exactly two entries: the first is named by the base name
  of the line-stream path and holds what reading that file gives, the second is named by
  the base name of the table path and holds what reading that file gives. Each entry
  holds the data of its source, so every measure of size agrees on the two.
\<close>

theorem C7_archive_entries:
  assumes "line_stream w = Some f" "ls_readable f" "workbook w = Some t" "tb_readable t"
  shows "\<exists>w' a. zipFiles w = Resolved w' \<and> archive w' = Some a
    \<and> map fst (entries a) =
        [basename (artifact_path dirname LineStream), basename (artifact_path dirname Table)]
    \<and> map (Inr \<circ> snd) (entries a) = [read_source LineStream w, read_source Table w]
    \<and> map (size_of \<circ> snd) (entries a) =
        [size_of (Bytes (contents f)), size_of (Sheet (columns t) (rows t))]"
  using assms by (simp add: zipFiles_both [OF assms] basename_artifacts)

text \<open>A data directory with a one-byte line-stream file and a table of one row.\<close>

theorem C7_archive_entries_witness:
  "\<exists>w' a. zipFiles both_files_world = Resolved w' \<and> archive w' = Some a
    \<and> map fst (entries a) = [''users_stream.ndjson'', ''users_stream.xlsx'']
    \<and> map snd (entries a) =
        [Bytes ''A'', Sheet (Some [make_column ''a'']) [[(1, JString ''1'')]]]"
proof -
  let ?f = "\<lparr>contents = ''A'', ls_status = Closed, ls_readable = True\<rparr>"
  have h: "line_stream both_files_world = Some ?f" "ls_readable ?f"
    "workbook both_files_world = Some sample_table" "tb_readable sample_table"
    by (simp_all add: both_files_world_def sample_table_def)
  from C7_archive_entries [OF h, of "''/srv/app''" id]
  obtain w' a where res: "zipFiles both_files_world = Resolved w'" and a: "archive w' = Some a"
    and names: "map fst (entries a) =
        [basename (artifact_path ''/srv/app'' LineStream), basename (artifact_path ''/srv/app'' Table)]"
    and sources: "map (Inr \<circ> snd) (entries a) =
        [read_source LineStream both_files_world, read_source Table both_files_world]"
    and data: "map (id \<circ> snd) (entries a) =
        [id (Bytes (contents ?f)), id (Sheet (columns sample_table) (rows sample_table))]"
    by (elim exE conjE) (rule that)
  from names have "map fst (entries a) = [''users_stream.ndjson'', ''users_stream.xlsx'']"
    by (simp add: basename_artifacts)
  moreover from data have "map snd (entries a) =
        [Bytes ''A'', Sheet (Some [make_column ''a'']) [[(1, JString ''1'')]]]"
    by (simp add: sample_table_def)
  ultimately show ?thesis using res a by auto
qed

subsection \<open>C8: completion and failure of the archiver\<close>

text \<open>
  C8 does not hold of the source where a source file is missing. \<^verbatim>\<open>zipFiles\<close> resolves
  only in the listener of \<^verbatim>\<open>'close'\<close> on the output (\<open>zipFiles_resolved_closed\<close>), and a
  source that cannot be read rejects it (\<open>zipFiles_unreadable_source\<close>). A source that is
  missing makes the archiver emit \<^verbatim>\<open>'warning'\<close>, for which the source registers no
  listener: with the line-stream file missing, \<^verbatim>\<open>zipFiles\<close> resolves, and the archive
  holds the table file alone.
\<close>

theorem C8_missing_source_resolves:
  "zipFiles table_only_world =
     Resolved
       \<lparr>line_stream = None, workbook = Some sample_table,
        archive = Some \<lparr>entries = [(''users_stream.xlsx'',
                                      Sheet (Some [make_column ''a'']) [[(1, JString ''1'')]])],
                        ar_status = Closed\<rparr>,
        trace = [CreateWriteStream Archive, Archiver 9, ArchivePipe Archive,
                 ArchiveFile LineStream ''users_stream.ndjson'',
                 ArchiveFile Table ''users_stream.xlsx'', ArchiveFinalize,
                 WarningEvent ENOENT, CloseEvent Archive, ConsoleLog ZipCreated,
                 SystemStats CompletedZipping]\<rparr>"
  by (simp add: zipFiles_def Let_def createWriteStream_zip_def archive_finalize_def
      output_close_def append_entry_def emit_def console_log_def logSystemStats_def
      table_only_world_def sample_table_def)

subsection \<open>C9: the table after an aborted conversion\<close>

text \<open>
  C9. When a non-blank line of a readable source does not parse, the conversion rejects;
  the line-stream file is as it was, the table file is still open for writing, and
  \<^verbatim>\<open>workbook.commit()\<close> is not among the effects of the call.
\<close>

theorem C9_table_unfinalized_on_abort:
  assumes src: "line_stream w = Some f" "ls_readable f"
    and bad: "l \<in> set (readline (contents f))" "trim l \<noteq> []" "parse l = None"
  shows "\<exists>e w' t. convertNDJSONToXLSX parse w = Rejected e w' \<and> line_stream w' = Some f
    \<and> workbook w' = Some t \<and> tb_status t = Writing
    \<and> WorkbookCommit \<notin> set (emitted w w')"
proof -
  from convertNDJSONToXLSX_malformed [of w f l parse, OF src bad]
  obtain e w' where rej: "convertNDJSONToXLSX parse w = Rejected e w'"
    by (cases "convertNDJSONToXLSX parse w") auto
  from convertNDJSONToXLSX_rejected [OF rej] src
  have "line_stream w' = Some f" "map_option tb_status (workbook w') = Some Writing"
    "WorkbookCommit \<notin> set (emitted w w')"
    by simp_all
  with rej show ?thesis by auto
qed

text \<open>The source whose second line is malformed.\<close>

theorem C9_table_unfinalized_on_abort_witness:
  "\<exists>e w' t. convertNDJSONToXLSX sample_parse (source_world malformed_source) = Rejected e w'
     \<and> line_stream w' = Some \<lparr>contents = malformed_source, ls_status = Closed, ls_readable = True\<rparr>
     \<and> workbook w' = Some t \<and> tb_status t = Writing
     \<and> WorkbookCommit \<notin> set (emitted (source_world malformed_source) w')"
proof -
  let ?f = "\<lparr>contents = malformed_source, ls_status = Closed, ls_readable = True\<rparr>"
  have bad: \<open>''{oops'' \<in> set (readline (contents ?f))\<close> \<open>trim ''{oops'' \<noteq> []\<close>
    \<open>sample_parse ''{oops'' = None\<close>
    by (simp_all add: readline_malformed_source trim_samples sample_parse_samples)
  from C9_table_unfinalized_on_abort [of "source_world malformed_source" ?f _ sample_parse,
      OF sample_source_file bad]
  show ?thesis .
qed

subsection \<open>C10: seven keys, seven columns\<close>



end
